theory Spec2Isabelle
  imports Main "HOL-Library.Char_ord" "HOL-Library.List_Lexorder" "HOL-Library.Signed_Division"
begin

section \<open>Document keys\<close>

text \<open>
  \<^verbatim>\<open>Poco::URI\<close> is library code. Its percent codec and its removal of dot segments are
  written out below as the library implements them; its parser of URI strings is not:
  \<^verbatim>\<open>sanitizeURI\<close> takes the parser as an argument, and a parsed URI is the record of what
  the accessors of the object return. \<^verbatim>\<open>getQueryParameters\<close> decodes the names and values
  of the query and throws on a malformed escape: \<open>None\<close>.
\<close>

datatype uri_error = URISyntaxException | InvalidURI string

record URI =
  uriScheme :: string
  uriUserInfo :: string
  uriHost :: string
  uriPort :: nat
  uriPath :: string
  uriQueryParameters :: "(string \<times> string) list option"
  uriFragment :: string

definition hexDigitValue :: "char \<Rightarrow> nat option" where
  "hexDigitValue c =
     (let n = (of_char c :: nat) in
      if 48 \<le> n \<and> n \<le> 57 then Some (n - 48)
      else if 65 \<le> n \<and> n \<le> 70 then Some (n - 55)
      else if 97 \<le> n \<and> n \<le> 102 then Some (n - 87)
      else None)"

definition hexDigit :: "nat \<Rightarrow> char" where
  "hexDigit n = (if n < 10 then char_of (48 + n) else char_of (55 + n))"

text \<open>\<^verbatim>\<open>NumberFormatter::formatHex(c, 2)\<close> of a byte.\<close>

definition formatHex2 :: "nat \<Rightarrow> string" where
  "formatHex2 n = [hexDigit (n div 16), hexDigit (n mod 16)]"

text \<open>\<^verbatim>\<open>Poco::URI::decode(str, decodedStr)\<close>; \<open>None\<close> is its \<^verbatim>\<open>URISyntaxException\<close>.\<close>

fun decode :: "string \<Rightarrow> string option" where
  "decode [] = Some []"
| "decode (c # cs) =
     (if c \<noteq> CHR ''%'' then map_option (Cons c) (decode cs)
      else
        (case cs of
           hi # lo # rest \<Rightarrow>
             (case (hexDigitValue hi, hexDigitValue lo) of
                (Some h, Some l) \<Rightarrow> map_option (Cons (char_of (h * 16 + l))) (decode rest)
              | _ \<Rightarrow> None)
         | _ \<Rightarrow> None))"

text \<open>The characters that \<^verbatim>\<open>Poco::URI::encode\<close> always escapes besides the controls, the
  blank and the bytes from 0x7F: the percent sign and the other members of its
  \<^verbatim>\<open>ILLEGAL\<close> string.\<close>

definition ILLEGAL :: string where
  "ILLEGAL = [CHR ''%'', CHR ''<'', CHR ''>'', CHR ''{'', CHR ''}'', CHR ''|'', CHR 0x5C,
              CHR 0x22, CHR ''^'', CHR 0x60, CHR ''!'', CHR ''*'', CHR 0x27, CHR ''('',
              CHR '')'', CHR ''$'', CHR '','', CHR ''['', CHR '']'']"

definition unreservedChar :: "char \<Rightarrow> bool" where
  "unreservedChar c =
     (let n = (of_char c :: nat) in
      (97 \<le> n \<and> n \<le> 122) \<or> (65 \<le> n \<and> n \<le> 90) \<or> (48 \<le> n \<and> n \<le> 57) \<or>
      c = CHR ''-'' \<or> c = CHR ''_'' \<or> c = CHR ''.'' \<or> c = CHR ''~'')"

definition encodeChar :: "string \<Rightarrow> char \<Rightarrow> string" where
  "encodeChar reserved c =
     (if unreservedChar c then [c]
      else if (of_char c :: nat) \<le> 0x20 \<or> (of_char c :: nat) \<ge> 0x7F \<or>
              c \<in> set ILLEGAL \<or> c \<in> set reserved
      then CHR ''%'' # formatHex2 (of_char c)
      else [c])"

text \<open>\<^verbatim>\<open>Poco::URI::encode(str, reserved, encodedStr)\<close>.\<close>

fun encode :: "string \<Rightarrow> string \<Rightarrow> string" where
  "encode [] reserved = []"
| "encode (c # cs) reserved = encodeChar reserved c @ encode cs reserved"

definition isRelative :: "URI \<Rightarrow> bool" where
  "isRelative u = (uriScheme u = [])"

text \<open>\<^verbatim>\<open>URI::getPathSegments\<close>: the non-empty pieces between slashes.\<close>

fun getPathSegmentsFrom :: "string \<Rightarrow> string \<Rightarrow> string list" where
  "getPathSegmentsFrom seg [] = (if seg = [] then [] else [seg])"
| "getPathSegmentsFrom seg (c # cs) =
     (if c = CHR ''/'' then
        (if seg \<noteq> [] then seg # getPathSegmentsFrom [] cs else getPathSegmentsFrom seg cs)
      else getPathSegmentsFrom (seg @ [c]) cs)"

text \<open>The loop of \<^verbatim>\<open>URI::removeDotSegments\<close> over the segments.\<close>

fun dotSegmentsLoop :: "bool \<Rightarrow> string list \<Rightarrow> string list \<Rightarrow> string list" where
  "dotSegmentsLoop removeLeading [] normalizedSegments = normalizedSegments"
| "dotSegmentsLoop removeLeading (seg # segs) normalizedSegments =
     (if seg = ''..'' then
        (if normalizedSegments \<noteq> [] then
           (if last normalizedSegments = ''..''
            then dotSegmentsLoop removeLeading segs (normalizedSegments @ [seg])
            else dotSegmentsLoop removeLeading segs (butlast normalizedSegments))
         else if \<not> removeLeading
         then dotSegmentsLoop removeLeading segs (normalizedSegments @ [seg])
         else dotSegmentsLoop removeLeading segs normalizedSegments)
      else if seg \<noteq> ''.''
      then dotSegmentsLoop removeLeading segs (normalizedSegments @ [seg])
      else dotSegmentsLoop removeLeading segs normalizedSegments)"

text \<open>\<^verbatim>\<open>URI::buildPath\<close>.\<close>

fun buildPathFrom :: "bool \<Rightarrow> bool \<Rightarrow> bool \<Rightarrow> string list \<Rightarrow> string" where
  "buildPathFrom first leadingSlash schemeEmpty [] = []"
| "buildPathFrom first leadingSlash schemeEmpty (seg # segs) =
     (if first then
        (if leadingSlash then ''/''
         else if schemeEmpty \<and> CHR '':'' \<in> set seg then ''./''
         else [])
      else ''/'')
     @ seg @ buildPathFrom False leadingSlash schemeEmpty segs"

definition buildPath :: "string \<Rightarrow> string list \<Rightarrow> bool \<Rightarrow> bool \<Rightarrow> string" where
  "buildPath scheme segments leadingSlash trailingSlash =
     buildPathFrom True leadingSlash (scheme = []) segments
     @ (if trailingSlash then ''/'' else [])"

text \<open>\<^verbatim>\<open>URI::normalize()\<close>, that is \<^verbatim>\<open>removeDotSegments(!isRelative())\<close>.\<close>

definition normalize :: "URI \<Rightarrow> URI" where
  "normalize u =
     (if uriPath u = [] then u
      else
        let leadingSlash = (hd (uriPath u) = CHR ''/'');
            trailingSlash = (last (uriPath u) = CHR ''/'');
            segments = getPathSegmentsFrom [] (uriPath u);
            normalizedSegments = dotSegmentsLoop (\<not> isRelative u) segments []
        in u\<lparr>uriPath := buildPath (uriScheme u) normalizedSegments leadingSlash trailingSlash\<rparr>)"

text \<open>The loop of \<^verbatim>\<open>sanitizeURI\<close> over the query parameters: the value of
  \<^verbatim>\<open>access_token\<close> is decoded once more.\<close>

fun decodeAccessToken :: "(string \<times> string) list \<Rightarrow> (string \<times> string) list option" where
  "decodeAccessToken [] = Some []"
| "decodeAccessToken ((name, val) # ps) =
     (if name = ''access_token'' then
        (case decode val of
           None \<Rightarrow> None
         | Some decodedToken \<Rightarrow> map_option (Cons (name, decodedToken)) (decodeAccessToken ps))
      else map_option (Cons (name, val)) (decodeAccessToken ps))"

text \<open>\<^verbatim>\<open>sanitizeURI\<close> from the point where \<^verbatim>\<open>Poco::URI(decodedUri)\<close> has been built.\<close>

definition sanitizeParsed :: "URI \<Rightarrow> uri_error + URI" where
  "sanitizeParsed parsed =
     (let uriPublic = (if isRelative parsed \<or> uriScheme parsed = ''file''
                       then normalize parsed else parsed)
      in if uriPath uriPublic = [] then Inl (InvalidURI ''Invalid URI.'')
         else
           (case uriQueryParameters uriPublic of
              None \<Rightarrow> Inl URISyntaxException
            | Some queryParams \<Rightarrow>
                (case decodeAccessToken queryParams of
                   None \<Rightarrow> Inl URISyntaxException
                 | Some queryParams1 \<Rightarrow>
                     Inr (uriPublic\<lparr>uriQueryParameters := Some queryParams1\<rparr>))))"

definition sanitizeURI :: "(string \<Rightarrow> URI option) \<Rightarrow> string \<Rightarrow> uri_error + URI" where
  "sanitizeURI parseURI uri =
     (case decode uri of
        None \<Rightarrow> Inl URISyntaxException
      | Some decodedUri \<Rightarrow>
          (case parseURI decodedUri of
             None \<Rightarrow> Inl URISyntaxException
           | Some parsed \<Rightarrow> sanitizeParsed parsed))"

text \<open>\<^verbatim>\<open>getDocKey\<close>. When the key is \<^verbatim>\<open>"/"\<close> the function walks the query parameters of a
  copy of the URI without using them; reading them can throw.\<close>

definition getDocKey :: "URI \<Rightarrow> uri_error + string" where
  "getDocKey uri =
     (let docKey = encode (uriPath uri) [] in
      if docKey = ''/'' then
        (case uriQueryParameters uri of
           None \<Rightarrow> Inl URISyntaxException
         | Some ps \<Rightarrow> Inr docKey)
      else Inr docKey)"

text \<open>The document key of a URI string, as the registry computes it.\<close>

definition docKeyOf :: "(string \<Rightarrow> URI option) \<Rightarrow> string \<Rightarrow> uri_error + string" where
  "docKeyOf parseURI uri =
     (case sanitizeURI parseURI uri of
        Inl e \<Rightarrow> Inl e
      | Inr u \<Rightarrow> getDocKey u)"

section \<open>DocumentBroker: data model\<close>

text \<open>
  The embedding follows \<^verbatim>\<open>wsd/DocumentBroker.cpp\<close>. Every member function becomes a
  function from the broker state (and the answers of the collaborators it calls) to an
  outcome. Conventions:
  \<^item> a \<^verbatim>\<open>throw\<close> is the outcome \<open>Throw\<close>, carrying the state reached when it was raised
    (the \<^verbatim>\<open>catch\<close> blocks of the callers read that state);
  \<^item> a failed \<^verbatim>\<open>assert\<close> and the dereference of a null \<^verbatim>\<open>_storage\<close> or
    \<^verbatim>\<open>_tileCache\<close> end the process: outcome \<open>Abort\<close>;
  \<^item> the kit handle \<^verbatim>\<open>_childProcess\<close> is present: \<^verbatim>\<open>pollThread\<close> returns before its
    main loop when no child was obtained, and every operation below runs inside that loop;
  \<^item> calls into collaborators (sockets, admin console, file system, storage plug-in) return;
    inside \<^verbatim>\<open>load\<close> the storage calls may also throw, since its callers catch that;
  \<^item> \<^verbatim>\<open>std::chrono::steady_clock::now()\<close> is an argument: a time point in nanoseconds.
\<close>

datatype error =
    RuntimeError string
  | StorageConnectionException string
  | StorageSpaceLowException
  | OtherException string

datatype ('a, 's) outcome = Return 'a 's | Throw error 's | Abort

type_synonym timepoint = int
type_synonym timestamp = int

text \<open>\<^verbatim>\<open>duration_cast<milliseconds>(d).count()\<close> and the same for seconds: integer division
  truncating towards zero.\<close>

definition duration_ms :: "int \<Rightarrow> int" where
  "duration_ms d = d sdiv 1000000"

definition duration_secs :: "int \<Rightarrow> int" where
  "duration_secs d = d sdiv 1000000000"

text \<open>The part of a \<^verbatim>\<open>ClientSession\<close> that the broker reads and writes. \<open>sentFrames\<close> are the
  frames written to the client socket (\<^verbatim>\<open>sendTextFrame\<close>, \<^verbatim>\<open>sendMessage\<close>), \<open>queuedMessages\<close>
  those handed to \<^verbatim>\<open>enqueueSendMessage\<close>.\<close>

record ClientSession =
  sid :: string
  publicUri :: string
  queryParameters :: "(string \<times> string) list"
  accessToken :: string
  readOnly :: bool
  documentOwner :: bool
  viewLoaded :: bool
  closeFrame :: bool
  attached :: bool
  userId :: string
  userName :: string
  sentFrames :: "string list"
  queuedMessages :: "string list"

record ChildProcess =
  alive :: bool
  childJailId :: string
  childFrames :: "string list"

datatype StorageKind = WopiStorage | LocalStorage | OtherStorage

datatype SaveResult = OK | DISKFULL | UNAUTHORIZED | FAILED

record FileInfo =
  infoFilename :: string
  infoOwnerId :: string
  infoModifiedTime :: timestamp
  infoValid :: bool

text \<open>A storage binding. \<open>uploads\<close> lists the access tokens of the calls of
  \<^verbatim>\<open>saveLocalFileToStorage\<close>, \<open>infoRequests\<close> those of \<^verbatim>\<open>getWOPIFileInfo\<close>.\<close>

record Storage =
  kind :: StorageKind
  storageLoaded :: bool
  fileInfo :: FileInfo
  rootFilePath :: string
  storageUri :: string
  uploads :: "string list"
  infoRequests :: "string list"

record TileCache =
  cacheUri :: string
  cacheRoot :: string
  cacheModifiedTime :: timestamp
  unsavedChanges :: bool

text \<open>The broker. \<^verbatim>\<open>_sessions\<close> is a \<^verbatim>\<open>std::map\<close> from session id to session whose only
  insertion is \<^verbatim>\<open>emplace(session->getId(), session)\<close>: it is the list of its sessions in key
  order, keyed by \<open>sid\<close>. \<open>wakeups\<close> counts the calls of \<^verbatim>\<open>_poll->wakeup()\<close>. \<open>tokens\<close> are
  the rows of the \<^verbatim>\<open>tokens\<close> table of the ledger database, which is process-wide and is
  threaded through the broker state here.\<close>

record DocumentBroker =
  docKey :: string
  docId :: string
  jailId :: string
  childRoot :: string
  cacheRootPath :: string
  uriJailed :: string
  docFilename :: string
  sessions :: "ClientSession list"
  storage :: "Storage option"
  tileCache :: "TileCache option"
  childProcess :: ChildProcess
  lastSaveTime :: timepoint
  lastSaveRequestTime :: timepoint
  lastActivityTime :: timepoint
  lastFileModifiedTime :: timestamp
  documentLastModifiedTime :: timestamp
  markToDestroy :: bool
  lastEditableSession :: bool
  isLoaded :: bool
  isModified :: bool
  stop :: bool
  wakeups :: nat
  tokens :: "string list"

text \<open>Constants of headers and of the configuration that the functions below read.\<close>

record Config =
  COMMAND_TIMEOUT_MS :: int
  IdleSaveDurationMs :: int
  AutoSaveDurationMs :: int
  IdleDocTimeoutSecs :: nat
  savingtime :: nat
  AutoSaveEnabled :: bool
  dontTerminateEditDefault :: bool
  dontSaveIfUnmodifiedDefault :: bool
  BUILD_NDC :: bool
  sslEnabledOrTermination :: bool

section \<open>The session map\<close>

text \<open>\<^verbatim>\<open>_sessions.find(id)\<close>, \<^verbatim>\<open>_sessions.erase(it)\<close> and \<^verbatim>\<open>_sessions.emplace(id, s)\<close>, which
  leaves the map alone when the key is taken.\<close>

definition findSession :: "string \<Rightarrow> ClientSession list \<Rightarrow> ClientSession option" where
  "findSession k ss = find (\<lambda>s. sid s = k) ss"

definition eraseSession :: "string \<Rightarrow> ClientSession list \<Rightarrow> ClientSession list" where
  "eraseSession k ss = filter (\<lambda>s. sid s \<noteq> k) ss"

fun emplaceSession :: "ClientSession \<Rightarrow> ClientSession list \<Rightarrow> ClientSession list" where
  "emplaceSession s [] = [s]"
| "emplaceSession s (t # ts) =
     (if sid s = sid t then t # ts
      else if sid s < sid t then s # t # ts
      else t # emplaceSession s ts)"

text \<open>Modelled from the spec: \<^verbatim>\<open>ClientSession\<close> (ClientSession.hpp) is not among the sources; the
  spec gives a session the capability to send a text frame and the read-only permission.
  \<^verbatim>\<open>sendTextFrame\<close> writes the frame to the client, \<^verbatim>\<open>setReadOnly\<close> sets the permission.\<close>

definition sendTextFrame :: "string \<Rightarrow> ClientSession \<Rightarrow> ClientSession" where
  "sendTextFrame msg s = s\<lparr>sentFrames := sentFrames s @ [msg]\<rparr>"

definition setReadOnly :: "ClientSession \<Rightarrow> ClientSession" where
  "setReadOnly s = s\<lparr>readOnly := True\<rparr>"

text \<open>Modelled from the spec: \<^verbatim>\<open>TileCache\<close> (TileCache.cpp) is not among the sources; the spec
  has the tile cache carry an unsaved-changes flag that \<^verbatim>\<open>setmodified\<close> toggles and a
  successful save clears. \<^verbatim>\<open>setUnsavedChanges\<close> sets the flag, \<^verbatim>\<open>saveLastModified\<close> records the
  modification time, and a tile cache that has just been constructed has no unsaved
  changes.\<close>

definition setUnsavedChanges :: "bool \<Rightarrow> TileCache \<Rightarrow> TileCache" where
  "setUnsavedChanges v tc = tc\<lparr>unsavedChanges := v\<rparr>"

definition saveLastModified :: "timestamp \<Rightarrow> TileCache \<Rightarrow> TileCache" where
  "saveLastModified t tc = tc\<lparr>cacheModifiedTime := t\<rparr>"

definition newTileCache :: "string \<Rightarrow> timestamp \<Rightarrow> string \<Rightarrow> TileCache" where
  "newTileCache docUrl modifiedTime cacheDir =
     \<lparr>cacheUri = docUrl, cacheRoot = cacheDir, cacheModifiedTime = modifiedTime,
      unsavedChanges = False\<rparr>"

declare setUnsavedChanges_def [simp] saveLastModified_def [simp] newTileCache_def [simp]

text \<open>Modelled from the spec: \<^verbatim>\<open>ChildProcess::sendTextFrame\<close> (DocumentBroker.hpp) is not among the
  sources; the spec has the child handle send framed text to the kit.\<close>

definition childSendTextFrame :: "string \<Rightarrow> DocumentBroker \<Rightarrow> DocumentBroker" where
  "childSendTextFrame msg b =
     b\<lparr>childProcess := (childProcess b)\<lparr>childFrames := childFrames (childProcess b) @ [msg]\<rparr>\<rparr>"

section \<open>Removing a session\<close>

text \<open>The loop of \<^verbatim>\<open>destroyIfLastEditor\<close>: another session that is loaded and writable clears
  the flag.\<close>

fun otherEditableLoop :: "string \<Rightarrow> ClientSession list \<Rightarrow> bool \<Rightarrow> bool" where
  "otherEditableLoop k [] les = les"
| "otherEditableLoop k (s # ss) les =
     (if sid s \<noteq> k \<and> viewLoaded s \<and> \<not> readOnly s then False
      else otherEditableLoop k ss les)"

definition destroyIfLastEditor :: "string \<Rightarrow> DocumentBroker \<Rightarrow> DocumentBroker" where
  "destroyIfLastEditor k b =
     (case findSession k (sessions b) of
        None \<Rightarrow> b
      | Some cur \<Rightarrow>
          let les0 = \<not> readOnly cur;
              les = (if les0 \<and> sessions b \<noteq> [] then otherEditableLoop k (sessions b) les0
                     else les0)
          in b\<lparr>lastEditableSession := les, markToDestroy := (length (sessions b) \<le> 1)\<rparr>)"

definition removeSessionInternal :: "string \<Rightarrow> DocumentBroker \<Rightarrow> (nat, DocumentBroker) outcome" where
  "removeSessionInternal k b =
     (case findSession k (sessions b) of
        Some s \<Rightarrow>
          let b1 = b\<lparr>sessions := eraseSession k (sessions b)\<rparr>;
              count = length (sessions b1);
              b2 = childSendTextFrame (''child-'' @ k @ '' disconnect'') b1
          in Return count b2
      | None \<Rightarrow> Return (length (sessions b)) b)"

section \<open>Forwarding to the kit and saving\<close>

text \<open>Modelled from the spec: \<^verbatim>\<open>LOOLProtocol::tokenize\<close> (Protocol.hpp) is not among the sources;
  the spec has messages made of whitespace-delimited tokens. Tokens are the maximal runs of
  characters other than the blank.\<close>

fun tokenizeFrom :: "string \<Rightarrow> string \<Rightarrow> string list" where
  "tokenizeFrom cur [] = (if cur = [] then [] else [cur])"
| "tokenizeFrom cur (c # cs) =
     (if c = CHR '' '' then (if cur = [] then tokenizeFrom [] cs else cur # tokenizeFrom [] cs)
      else tokenizeFrom (cur @ [c]) cs)"

definition tokenize :: "string \<Rightarrow> string list" where
  "tokenize msg = tokenizeFrom [] msg"

text \<open>\<^verbatim>\<open>Poco::cat(std::string(" "), first, last)\<close>.\<close>

fun cat :: "string \<Rightarrow> string list \<Rightarrow> string" where
  "cat sep [] = []"
| "cat sep [t] = t"
| "cat sep (t # ts) = t @ sep @ cat sep ts"

definition forwardToChild :: "string \<Rightarrow> string \<Rightarrow> DocumentBroker \<Rightarrow> (bool, DocumentBroker) outcome" where
  "forwardToChild viewId message b =
     (let msg = ''child-'' @ viewId @ '' '' @ message in
      case findSession viewId (sessions b) of
        Some s \<Rightarrow>
          if uriJailed b = [] then Abort
          else
            let toks = tokenize msg in
            if length toks > 1 \<and> toks ! 1 = ''load'' then
              (if length toks < 3 then Abort
               else
                 let msg1 = toks ! 0 @ '' '' @ toks ! 1 @ '' '' @ toks ! 2;
                     msg2 = msg1 @ '' jail='' @ uriJailed b @ '' '';
                     msg3 = msg2 @ cat '' '' (drop 3 toks)
                 in Return True (childSendTextFrame msg3 b))
            else Return True (childSendTextFrame msg b)
      | None \<Rightarrow> Return False b)"

definition saveArgs :: "bool \<Rightarrow> bool \<Rightarrow> string" where
  "saveArgs dontTerminateEdit dontSaveIfUnmodified =
     ''{''
     @ (if dontTerminateEdit
        then ''\"DontTerminateEdit\":{\"type\":\"boolean\",\"value\":true}'' else [])
     @ (if dontSaveIfUnmodified
        then (if dontTerminateEdit then '','' else [])
             @ ''\"DontSaveIfUnmodified\":{\"type\":\"boolean\",\"value\":true}''
        else [])
     @ ''}''"

definition sendUnoSave ::
  "string \<Rightarrow> bool \<Rightarrow> bool \<Rightarrow> timepoint \<Rightarrow> DocumentBroker \<Rightarrow> (bool, DocumentBroker) outcome" where
  "sendUnoSave sessionId dontTerminateEdit dontSaveIfUnmodified now b =
     (case findSession sessionId (sessions b) of
        Some s \<Rightarrow>
          let b1 = b\<lparr>lastFileModifiedTime := 0\<rparr>;
              command = ''uno .uno:Save '' @ saveArgs dontTerminateEdit dontSaveIfUnmodified
          in (case forwardToChild sessionId command b1 of
                Return r b2 \<Rightarrow> Return True (b2\<lparr>lastSaveRequestTime := now\<rparr>)
              | Throw e b2 \<Rightarrow> Throw e b2
              | Abort \<Rightarrow> Abort)
      | None \<Rightarrow> Return False b)"

text \<open>The loop of \<^verbatim>\<open>autoSave\<close> choosing the session to save with: the first one, unless
  a document owner is met.\<close>

fun savingSessionLoop :: "ClientSession list \<Rightarrow> string \<Rightarrow> string" where
  "savingSessionLoop [] savingSessionId = savingSessionId"
| "savingSessionLoop (s # ss) savingSessionId =
     (let first = (if savingSessionId = [] then sid s else savingSessionId)
      in if documentOwner s then sid s else savingSessionLoop ss first)"

definition autoSave :: "Config \<Rightarrow> bool \<Rightarrow> timepoint \<Rightarrow> DocumentBroker \<Rightarrow> (bool, DocumentBroker) outcome" where
  "autoSave cfg force now b =
     (if sessions b = [] \<or> storage b = None \<or> \<not> isLoaded b \<or>
         \<not> alive (childProcess b) \<or> (\<not> isModified b \<and> \<not> force)
      then Return False b
      else
        let savingSessionId = savingSessionLoop (sessions b) [] in
        if force then
          sendUnoSave savingSessionId (dontTerminateEditDefault cfg)
            (dontSaveIfUnmodifiedDefault cfg) now b
        else if isModified b then
          (let inactivityTimeMs = duration_ms (now - lastActivityTime b);
               timeSinceLastSaveMs = duration_ms (now - lastSaveTime b)
           in if inactivityTimeMs \<ge> IdleSaveDurationMs cfg \<or>
                 timeSinceLastSaveMs \<ge> AutoSaveDurationMs cfg
              then sendUnoSave savingSessionId (dontTerminateEditDefault cfg)
                     (dontSaveIfUnmodifiedDefault cfg) now b
              else Return False b)
        else Return False b)"

text \<open>\<^verbatim>\<open>removeSession\<close>. Its \<^verbatim>\<open>catch\<close> block logs and falls through to
  \<^verbatim>\<open>return _sessions.size()\<close>.\<close>

definition removeSession ::
  "Config \<Rightarrow> string \<Rightarrow> bool \<Rightarrow> timepoint \<Rightarrow> DocumentBroker \<Rightarrow> (nat, DocumentBroker) outcome" where
  "removeSession cfg k destroyIfLast now b =
     (let b1 = (if destroyIfLast then destroyIfLastEditor k b else b) in
      if \<not> lastEditableSession b1 then removeSessionInternal k b1
      else
        (case autoSave cfg True now b1 of
           Return sent b2 \<Rightarrow>
             if \<not> sent then removeSessionInternal k b2
             else Return (length (sessions b2)) b2
         | Throw e b2 \<Rightarrow> Return (length (sessions b2)) b2
         | Abort \<Rightarrow> Abort))"

section \<open>Saving to storage\<close>

text \<open>What the collaborators answer during one \<^verbatim>\<open>saveToStorageInternal\<close>: the clock, the
  modification time of the local file, the result of the upload, and the modification time
  in the file info that the storage fetches after a successful upload.\<close>

record SaveEnv =
  saveNow :: timepoint
  newFileModifiedTime :: timestamp
  storageSaveResult :: SaveResult
  freshModifiedTime :: timestamp

definition updateSession :: "string \<Rightarrow> (ClientSession \<Rightarrow> ClientSession) \<Rightarrow> ClientSession list \<Rightarrow> ClientSession list" where
  "updateSession k f ss = map (\<lambda>s. if sid s = k then f s else s) ss"

definition saveToStorageInternal ::
  "SaveEnv \<Rightarrow> string \<Rightarrow> bool \<Rightarrow> string \<Rightarrow> DocumentBroker \<Rightarrow> (bool, DocumentBroker) outcome" where
  "saveToStorageInternal env sessionId success result b =
     (if \<not> success \<and> result = ''unmodified'' then
        Return True (b\<lparr>lastSaveTime := saveNow env, wakeups := wakeups b + 1\<rparr>)
      else
        case findSession sessionId (sessions b) of
          None \<Rightarrow> Return False b
        | Some it \<Rightarrow>
           (case storage b of
              None \<Rightarrow> Abort
            | Some st \<Rightarrow>
                if \<not> lastEditableSession b \<and> newFileModifiedTime env = lastFileModifiedTime b then
                  Return True (b\<lparr>lastSaveTime := saveNow env, wakeups := wakeups b + 1\<rparr>)
                else
                  (case tileCache b of
                     None \<Rightarrow> Abort
                   | Some tc \<Rightarrow>
                       let st1 = st\<lparr>uploads := uploads st @ [accessToken it]\<rparr> in
                       (case storageSaveResult env of
                          OK \<Rightarrow>
                            let tc1 = saveLastModified (newFileModifiedTime env)
                                        (setUnsavedChanges False tc);
                                st2 = (if kind st1 = WopiStorage then
                                         st1\<lparr>infoRequests := infoRequests st1 @ [accessToken it],
                                             fileInfo := (fileInfo st1)\<lparr>infoModifiedTime := freshModifiedTime env\<rparr>\<rparr>
                                       else if kind st1 = LocalStorage then
                                         st1\<lparr>fileInfo := (fileInfo st1)\<lparr>infoModifiedTime := freshModifiedTime env\<rparr>\<rparr>
                                       else st1)
                            in Return True
                                 (b\<lparr>isModified := False,
                                    tileCache := Some tc1,
                                    lastFileModifiedTime := newFileModifiedTime env,
                                    lastSaveTime := saveNow env,
                                    wakeups := wakeups b + 1,
                                    storage := Some st2,
                                    documentLastModifiedTime := infoModifiedTime (fileInfo st2)\<rparr>)
                        | DISKFULL \<Rightarrow>
                            Return False
                              (b\<lparr>storage := Some st1,
                                 sessions := map (\<lambda>s. sendTextFrame ''error: cmd=storage kind=savediskfull''
                                                        (setReadOnly s)) (sessions b)\<rparr>)
                        | UNAUTHORIZED \<Rightarrow>
                            Return False
                              (b\<lparr>storage := Some st1,
                                 sessions := updateSession sessionId
                                   (sendTextFrame ''error: cmd=storage kind=saveunauthorized'') (sessions b)\<rparr>)
                        | FAILED \<Rightarrow>
                            Return False
                              (b\<lparr>storage := Some st1,
                                 sessions := updateSession sessionId
                                   (sendTextFrame ''error: cmd=storage kind=savefailed'') (sessions b)\<rparr>)))))"

definition saveToStorage ::
  "SaveEnv \<Rightarrow> string \<Rightarrow> bool \<Rightarrow> string \<Rightarrow> DocumentBroker \<Rightarrow> (bool, DocumentBroker) outcome" where
  "saveToStorage env sessionId success result b =
     (case saveToStorageInternal env sessionId success result b of
        Return res b1 \<Rightarrow>
          (let it = findSession sessionId (sessions b1) in
           case (if markToDestroy b1 \<or> (case it of Some s \<Rightarrow> closeFrame s | None \<Rightarrow> False)
                 then removeSessionInternal sessionId b1
                 else Return 0 b1) of
             Return n b2 \<Rightarrow>
               Return res (if markToDestroy b2 \<or> sessions b2 = [] then b2\<lparr>stop := True\<rparr> else b2)
           | Throw e b2 \<Rightarrow> Throw e b2
           | Abort \<Rightarrow> Abort)
      | Throw e b1 \<Rightarrow> Throw e b1
      | Abort \<Rightarrow> Abort)"

definition setModified :: "bool \<Rightarrow> DocumentBroker \<Rightarrow> (unit, DocumentBroker) outcome" where
  "setModified v b =
     (case tileCache b of
        None \<Rightarrow> Abort
      | Some tc \<Rightarrow> Return () (b\<lparr>tileCache := Some (setUnsavedChanges v tc), isModified := v\<rparr>))"

section \<open>The poll loop\<close>

text \<open>The state of the main loop of \<^verbatim>\<open>pollThread\<close>: the broker and the two locals that the
  loop updates.\<close>

record LoopState =
  loopBroker :: DocumentBroker
  last30SecCheckTime :: timepoint
  closeReason :: string

text \<open>What one iteration reads from outside: the effect of \<^verbatim>\<open>_poll->poll\<close> on the broker
  (socket handlers and queued callbacks run inside it), the flag \<^verbatim>\<open>ShutdownRequestFlag\<close>,
  the value of \<^verbatim>\<open>getIdleTimeSecs()\<close>, and the clock at the three places where it is read.\<close>

record PollEnv =
  pollEffect :: "DocumentBroker \<Rightarrow> DocumentBroker"
  ShutdownRequestFlag :: bool
  idleTimeSecs :: nat
  pollNow :: timepoint
  autoSaveNow :: timepoint
  afterSaveNow :: timepoint

text \<open>The test that opens the body of the loop: a save was requested after the last one
  completed, no longer ago than the command timeout.\<close>

definition savingInProgress :: "Config \<Rightarrow> timepoint \<Rightarrow> DocumentBroker \<Rightarrow> bool" where
  "savingInProgress cfg now b =
     (lastSaveTime b < lastSaveRequestTime b \<and>
      duration_ms (now - lastSaveRequestTime b) \<le> COMMAND_TIMEOUT_MS cfg)"

text \<open>The timer actions of the loop body: shutdown, the autosave tick, idle and dead
  termination.\<close>

definition timerActions :: "Config \<Rightarrow> PollEnv \<Rightarrow> LoopState \<Rightarrow> (unit, LoopState) outcome" where
  "timerActions cfg env ls =
     (let b = loopBroker ls;
          now = pollNow env in
      case (if ShutdownRequestFlag env then
              Return () (ls\<lparr>closeReason := ''recycling'', loopBroker := b\<lparr>stop := True\<rparr>\<rparr>)
            else if AutoSaveEnabled cfg \<and> \<not> stop b \<and>
                    duration_secs (now - last30SecCheckTime ls) \<ge> int (savingtime cfg) then
              (case autoSave cfg True (autoSaveNow env) b of
                 Return sent b1 \<Rightarrow>
                   Return () (ls\<lparr>loopBroker := b1, last30SecCheckTime := afterSaveNow env\<rparr>)
               | Throw e b1 \<Rightarrow> Throw e (ls\<lparr>loopBroker := b1\<rparr>)
               | Abort \<Rightarrow> Abort)
            else Return () ls) of
        Return u ls1 \<Rightarrow>
          (let b1 = loopBroker ls1;
               idle = (idleTimeSecs env \<ge> IdleDocTimeoutSecs cfg)
           in if (isLoaded b1 \<or> markToDestroy b1) \<and> (sessions b1 = [] \<or> idle) then
                Return () (ls1\<lparr>closeReason := (if idle then ''idle'' else ''dead''),
                               loopBroker := b1\<lparr>stop := True\<rparr>\<rparr>)
              else Return () ls1)
      | Throw e ls1 \<Rightarrow> Throw e ls1
      | Abort \<Rightarrow> Abort)"

text \<open>One pass through the body of \<^verbatim>\<open>while (!_stop && ...)\<close>.\<close>

definition pollIteration :: "Config \<Rightarrow> PollEnv \<Rightarrow> LoopState \<Rightarrow> (unit, LoopState) outcome" where
  "pollIteration cfg env ls =
     (let ls1 = ls\<lparr>loopBroker := pollEffect env (loopBroker ls)\<rparr> in
      if savingInProgress cfg (pollNow env) (loopBroker ls1) then Return () ls1
      else timerActions cfg env ls1)"

section \<open>Loading and admitting a session\<close>

text \<open>\<^verbatim>\<open>tokenUsed\<close>: the answer is \<^verbatim>\<open>false\<close> when the ledger has the token; otherwise a row is
  inserted and the answer is \<^verbatim>\<open>true\<close>.\<close>

definition tokenUsed :: "string \<Rightarrow> string list \<Rightarrow> bool \<times> string list" where
  "tokenUsed token ledger =
     (if count_list ledger token > 0 then (False, ledger) else (True, ledger @ [token]))"

record WOPIFileInfo =
  wopiUserId :: string
  wopiUsername :: string
  userCanWrite :: bool
  postMessageOrigin :: string
  wopiProperties :: "(string \<times> string) list"

text \<open>What the collaborators answer during one \<^verbatim>\<open>load\<close>: the unit-test hook
  \<^verbatim>\<open>filterLoad\<close> (\<open>Some r\<close> when it takes the call over), \<^verbatim>\<open>StorageBase::create\<close>,
  \<^verbatim>\<open>getWOPIFileInfo\<close> and \<^verbatim>\<open>getLocalFileInfo\<close> with the file info they leave in the storage,
  \<^verbatim>\<open>loadStorageFileToLocal\<close>, the modification time of the downloaded file, and the texts
  built by \<^verbatim>\<open>parseAllPermission\<close>, by the JSON writer and by \<^verbatim>\<open>std::to_string\<close>.\<close>

record LoadEnv =
  filterLoad :: "bool option"
  createStorage :: "error + Storage option"
  getWOPIFileInfo :: "error + WOPIFileInfo \<times> FileInfo"
  getLocalFileInfo :: "(string \<times> string) \<times> FileInfo"
  loadStorageFileToLocal :: "error + string"
  rootFileModified :: timestamp
  parseAllPermission :: "string \<Rightarrow> string"
  stringify :: "(string \<times> string) list \<Rightarrow> string"
  loadDurationText :: string

text \<open>The loops of \<^verbatim>\<open>load\<close> over the query parameters of the session's public URI.\<close>

fun nocheckLoop :: "(string \<times> string) list \<Rightarrow> bool \<Rightarrow> bool" where
  "nocheckLoop [] nocheck = nocheck"
| "nocheckLoop ((name, val) # ps) nocheck =
     nocheckLoop ps (if name = ''docpass'' \<and> val = ''yes'' then False else nocheck)"

fun permissionLoop :: "(string \<times> string) list \<Rightarrow> string \<Rightarrow> string" where
  "permissionLoop [] permission = permission"
| "permissionLoop ((name, val) # ps) permission =
     permissionLoop ps (if name = ''permission'' then val else permission)"

fun rdidLoop :: "(string \<times> string) list \<Rightarrow> string \<times> ClientSession \<Rightarrow> string \<times> ClientSession" where
  "rdidLoop [] acc = acc"
| "rdidLoop ((name, val) # ps) (permission, s) =
     rdidLoop ps (if name = ''rdid'' then (''convview'', sendTextFrame val s) else (permission, s))"

text \<open>The branch of \<^verbatim>\<open>load\<close> for a WOPI storage, after the token test: file info, the
  \<^verbatim>\<open>perm:\<close> and \<^verbatim>\<open>wopi:\<close> frames, the document owner.\<close>

definition loadWopiInfo ::
  "Config \<Rightarrow> LoadEnv \<Rightarrow> Storage \<Rightarrow> DocumentBroker \<Rightarrow> ClientSession \<Rightarrow>
   (string \<times> string, (DocumentBroker \<times> ClientSession) \<times> Storage) outcome" where
  "loadWopiInfo cfg env st b s =
     (case getWOPIFileInfo env of
        Inl e \<Rightarrow> Throw e ((b, s), st)
      | Inr (wopifileinfo, info) \<Rightarrow>
          let st1 = st\<lparr>infoRequests := infoRequests st @ [accessToken s], fileInfo := info\<rparr>;
              s1 = (if \<not> userCanWrite wopifileinfo then setReadOnly s else s);
              s2 = (if BUILD_NDC cfg
                    then sendTextFrame (''perm: '' @ parseAllPermission env
                           (permissionLoop (queryParameters s1) ''edit'')) s1
                    else s1);
              origin = (if postMessageOrigin wopifileinfo \<noteq> [] \<and>
                           take 7 (postMessageOrigin wopifileinfo) = ''http://'' \<and>
                           sslEnabledOrTermination cfg
                        then ''https'' @ drop 4 (postMessageOrigin wopifileinfo)
                        else postMessageOrigin wopifileinfo);
              wopiInfo = (if postMessageOrigin wopifileinfo \<noteq> []
                          then [(''PostMessageOrigin'', origin)] else [])
                         @ wopiProperties wopifileinfo;
              s3 = sendTextFrame (''wopi: '' @ stringify env wopiInfo) s2;
              s4 = (if wopiUserId wopifileinfo = infoOwnerId (fileInfo st1)
                    then s3\<lparr>documentOwner := True\<rparr> else s3)
          in Return (wopiUserId wopifileinfo, wopiUsername wopifileinfo) ((b, s4), st1))"

text \<open>Modelled from the spec: \<^verbatim>\<open>StorageBase::loadStorageFileToLocal\<close> (Storage.cpp) is not among
  the sources; the spec has later loads skip the download, so a download that returns leaves
  the storage loaded.\<close>

definition markStorageLoaded :: "Storage \<Rightarrow> Storage" where
  "markStorageLoaded st = st\<lparr>storageLoaded := True\<rparr>"

text \<open>\<^verbatim>\<open>load\<close>, first part: the storage is created on the first call. The value returned
  is \<^verbatim>\<open>firstInstance\<close>.\<close>

definition loadStorage :: "LoadEnv \<Rightarrow> DocumentBroker \<Rightarrow> (bool, Storage option) outcome" where
  "loadStorage env b =
     (case storage b of
        Some st \<Rightarrow> Return False (Some st)
      | None \<Rightarrow>
          (case createStorage env of
             Inl e \<Rightarrow> Throw e None
           | Inr None \<Rightarrow> Return True None
           | Inr (Some st) \<Rightarrow> Return True (Some st)))"

text \<open>\<^verbatim>\<open>load\<close>, second part: the file info calls that depend on the kind of storage. For a
  WOPI storage \<^verbatim>\<open>tokenUsed\<close> is called first, whatever \<^verbatim>\<open>nocheck\<close> is. The value returned is
  the pair of \<^verbatim>\<open>userid\<close> and \<^verbatim>\<open>username\<close>.\<close>

definition loadFileInfo ::
  "Config \<Rightarrow> LoadEnv \<Rightarrow> Storage \<Rightarrow> DocumentBroker \<Rightarrow> ClientSession \<Rightarrow>
   (string \<times> string, (DocumentBroker \<times> ClientSession) \<times> Storage) outcome" where
  "loadFileInfo cfg env st b session =
     (if kind st = WopiStorage then
        (let nocheck = nocheckLoop (queryParameters session) True;
             used = tokenUsed (accessToken session) (tokens b);
             b1 = b\<lparr>tokens := snd used\<rparr>
         in if \<not> fst used \<and> nocheck
            then Throw (StorageConnectionException ''WOPI::CheckFileInfo failed'')
                   ((b1, session), st)
            else loadWopiInfo cfg env st b1 session)
      else
        (let permission = permissionLoop (queryParameters session) ''edit'';
             ps = rdidLoop (queryParameters session) (permission, session);
             s1 = sendTextFrame (''perm: '' @ parseAllPermission env (fst ps)) (snd ps)
         in if kind st = LocalStorage
            then Return (fst (getLocalFileInfo env))
                   ((b, s1), st\<lparr>fileInfo := snd (getLocalFileInfo env)\<rparr>)
            else Return ([], []) ((b, s1), st)))"

text \<open>\<^verbatim>\<open>load\<close>, last part: the download into the jail, once per storage.\<close>

definition loadDocument :: "LoadEnv \<Rightarrow> Storage \<Rightarrow> DocumentBroker \<Rightarrow> (unit, DocumentBroker) outcome" where
  "loadDocument env st b =
     (if \<not> storageLoaded st then
        (case loadStorageFileToLocal env of
           Inl e \<Rightarrow> Throw e b
         | Inr localPath \<Rightarrow>
             Return ()
               (b\<lparr>storage := Some (markStorageLoaded st),
                  uriJailed := ''file://'' @ encode localPath ''#%'',
                  docFilename := infoFilename (fileInfo st),
                  lastFileModifiedTime := rootFileModified env,
                  tileCache := Some (newTileCache (storageUri st) (rootFileModified env)
                                       (cacheRootPath b))\<rparr>))
      else Return () b)"

definition load ::
  "Config \<Rightarrow> LoadEnv \<Rightarrow> ClientSession \<Rightarrow> DocumentBroker \<Rightarrow>
   (bool, DocumentBroker \<times> ClientSession) outcome" where
  "load cfg env session b =
     (case filterLoad env of
        Some result \<Rightarrow> Return result (b, session)
      | None \<Rightarrow>
        if markToDestroy b then Return False (b, session)
        else
          let b1 = b\<lparr>jailId := childJailId (childProcess b)\<rparr> in
          if jailId b1 = [] then Abort
          else
            (case loadStorage env b1 of
               Throw e x \<Rightarrow> Throw e (b1, session)
             | Abort \<Rightarrow> Abort
             | Return firstInstance None \<Rightarrow> Return False (b1, session)
             | Return firstInstance (Some st) \<Rightarrow>
                 (case loadFileInfo cfg env st (b1\<lparr>storage := Some st\<rparr>) session of
                    Throw e ((b4, s4), st4) \<Rightarrow> Throw e (b4\<lparr>storage := Some st4\<rparr>, s4)
                  | Abort \<Rightarrow> Abort
                  | Return (userid, username) ((b4, s4), st4) \<Rightarrow>
                      let s5 = s4\<lparr>userId := userid, userName := username\<rparr>;
                          b5 = b4\<lparr>storage := Some st4\<rparr>
                      in if \<not> infoValid (fileInfo st4) then Return False (b5, s5)
                         else
                           let b6 = (if firstInstance
                                     then b5\<lparr>documentLastModifiedTime := infoModifiedTime (fileInfo st4)\<rparr>
                                     else b5)
                           in (case loadDocument env st4 b6 of
                                 Throw e b7 \<Rightarrow> Throw e (b7, s5)
                               | Abort \<Rightarrow> Abort
                               | Return u b7 \<Rightarrow>
                                   Return True
                                     (b7, if kind st = WopiStorage
                                          then sendTextFrame (''stats: wopiloadduration '' @ loadDurationText env) s5
                                          else s5)))))"

text \<open>Modelled from the spec: the two-argument \<^verbatim>\<open>alertAllUsers(cmd, kind)\<close> (DocumentBroker.hpp)
  is not among the sources; the spec has the failure reach every session of the document as
  an internal/diskfull alert. The one-argument \<^verbatim>\<open>alertAllUsers(msg)\<close> queues the message on
  every session.\<close>

definition alertAllUsers :: "string \<Rightarrow> DocumentBroker \<Rightarrow> DocumentBroker" where
  "alertAllUsers msg b =
     b\<lparr>sessions := map (\<lambda>s. s\<lparr>queuedMessages := queuedMessages s @ [msg]\<rparr>) (sessions b)\<rparr>"

definition alertAllUsers2 :: "string \<Rightarrow> string \<Rightarrow> DocumentBroker \<Rightarrow> DocumentBroker" where
  "alertAllUsers2 cmd knd b = alertAllUsers (''error: cmd='' @ cmd @ '' kind='' @ knd) b"

definition addSessionInternal ::
  "Config \<Rightarrow> LoadEnv \<Rightarrow> ClientSession \<Rightarrow> DocumentBroker \<Rightarrow>
   (nat, DocumentBroker \<times> ClientSession) outcome" where
  "addSessionInternal cfg env session b =
     (case load cfg env session b of
        Throw StorageSpaceLowException (b1, s1) \<Rightarrow>
          Throw StorageSpaceLowException (alertAllUsers2 ''internal'' ''diskfull'' b1, s1)
      | Throw e bs \<Rightarrow> Throw e bs
      | Abort \<Rightarrow> Abort
      | Return loaded (b1, s1) \<Rightarrow>
          if \<not> loaded then
            Throw (RuntimeError (''Failed to load document with URI ['' @ publicUri s1 @ ''].'')) (b1, s1)
          else
            let b2 = b1\<lparr>lastEditableSession := False, markToDestroy := False, stop := False\<rparr>;
                b3 = childSendTextFrame (''session '' @ sid s1 @ '' '' @ docKey b2 @ '' '' @ docId b2) b2;
                s2 = s1\<lparr>attached := True\<rparr>;
                b4 = b3\<lparr>sessions := emplaceSession s2 (sessions b3)\<rparr>
            in Return (length (sessions b4)) (b4, s2))"

definition addSession ::
  "Config \<Rightarrow> LoadEnv \<Rightarrow> ClientSession \<Rightarrow> DocumentBroker \<Rightarrow>
   (nat, DocumentBroker \<times> ClientSession) outcome" where
  "addSession cfg env session b =
     (case addSessionInternal cfg env session b of
        Return n bs \<Rightarrow> Return n bs
      | Throw e (b1, s1) \<Rightarrow>
          Throw e (if sessions b1 = [] then b1\<lparr>markToDestroy := True\<rparr> else b1, s1)
      | Abort \<Rightarrow> Abort)"

section \<open>Example states\<close>

text \<open>A configuration with the defaults of the spec (command timeout 30 s, autosave every
  30 s, idle timeout one hour), a writable session whose view is loaded, a WOPI storage that
  has downloaded its file, and a loaded broker over given sessions.\<close>

definition exampleConfig :: Config where
  "exampleConfig =
     \<lparr>COMMAND_TIMEOUT_MS = 30000, IdleSaveDurationMs = 30000, AutoSaveDurationMs = 300000,
      IdleDocTimeoutSecs = 3600, savingtime = 30, AutoSaveEnabled = True,
      dontTerminateEditDefault = True, dontSaveIfUnmodifiedDefault = True,
      BUILD_NDC = False, sslEnabledOrTermination = False\<rparr>"

definition exampleSession :: "string \<Rightarrow> ClientSession" where
  "exampleSession k =
     \<lparr>sid = k, publicUri = ''https://host/wopi/files/42?access_token=T'',
      queryParameters = [(''access_token'', ''T'')], accessToken = ''T'',
      readOnly = False, documentOwner = False, viewLoaded = True, closeFrame = False,
      attached = True, userId = ''u'', userName = ''user'', sentFrames = [],
      queuedMessages = []\<rparr>"

definition exampleStorage :: Storage where
  "exampleStorage =
     \<lparr>kind = WopiStorage, storageLoaded = True,
      fileInfo = \<lparr>infoFilename = ''doc.odt'', infoOwnerId = ''owner'', infoModifiedTime = 100,
                  infoValid = True\<rparr>,
      rootFilePath = ''/jail/user/doc/j/doc.odt'', storageUri = ''https://host/wopi/files/42'',
      uploads = [], infoRequests = []\<rparr>"

definition exampleTileCache :: TileCache where
  "exampleTileCache =
     \<lparr>cacheUri = ''https://host/wopi/files/42'', cacheRoot = ''/cache/a/b/c'',
      cacheModifiedTime = 7, unsavedChanges = False\<rparr>"

definition exampleBroker :: "ClientSession list \<Rightarrow> DocumentBroker" where
  "exampleBroker ss =
     \<lparr>docKey = ''/wopi/files/42'', docId = ''001'', jailId = ''j'', childRoot = ''/jails'',
      cacheRootPath = ''/cache/a/b/c'',
      uriJailed = ''file:///user/doc/j/doc.odt'', docFilename = ''doc.odt'', sessions = ss,
      storage = Some exampleStorage, tileCache = Some exampleTileCache,
      childProcess = \<lparr>alive = True, childJailId = ''j'', childFrames = []\<rparr>,
      lastSaveTime = 0, lastSaveRequestTime = 0, lastActivityTime = 0,
      lastFileModifiedTime = 7, documentLastModifiedTime = 100,
      markToDestroy = False, lastEditableSession = False, isLoaded = True,
      isModified = False, stop = False, wakeups = 0, tokens = [''T'']\<rparr>"

definition exampleSaveEnv :: "SaveResult \<Rightarrow> SaveEnv" where
  "exampleSaveEnv r =
     \<lparr>saveNow = 9, newFileModifiedTime = 8, storageSaveResult = r, freshModifiedTime = 101\<rparr>"

definition exampleLoadEnv :: LoadEnv where
  "exampleLoadEnv =
     \<lparr>filterLoad = None,
      createStorage = Inr (Some (exampleStorage\<lparr>storageLoaded := False\<rparr>)),
      getWOPIFileInfo = Inr (\<lparr>wopiUserId = ''u'', wopiUsername = ''user'', userCanWrite = True,
                               postMessageOrigin = [], wopiProperties = []\<rparr>,
                             fileInfo exampleStorage),
      getLocalFileInfo = ((''u'', ''user''), fileInfo exampleStorage),
      loadStorageFileToLocal = Inr ''/jails/j/user/doc/j/doc.odt'',
      rootFileModified = 7,
      parseAllPermission = (\<lambda>p. ''{}''),
      stringify = (\<lambda>ps. ''{}''),
      loadDurationText = ''0.1''\<rparr>"

definition exampleURI :: "string \<Rightarrow> URI" where
  "exampleURI sch =
     \<lparr>uriScheme = sch, uriUserInfo = [], uriHost = ''h'', uriPort = 0,
      uriPath = ''/a/../b'', uriQueryParameters = Some [], uriFragment = []\<rparr>"

text \<open>
  A document shared by an editor \<^verbatim>\<open>s1\<close> and a viewer \<^verbatim>\<open>s2\<close>; the same broker once
  \<^verbatim>\<open>removeSession("s1", true)\<close> has sent the forced save at time 5; and that broker once
  the save has been uploaded with \<^verbatim>\<open>exampleSaveEnv OK\<close>. In \<^verbatim>\<open>exampleSharedClosing\<close> the
  departing editor has its close frame set while the save is under way.
\<close>

definition exampleViewer :: "string \<Rightarrow> ClientSession" where
  "exampleViewer k = (exampleSession k)\<lparr>readOnly := True\<rparr>"

definition exampleShared :: DocumentBroker where
  "exampleShared = exampleBroker [exampleSession ''s1'', exampleViewer ''s2'']"

definition exampleSharedSaving :: DocumentBroker where
  "exampleSharedSaving =
     exampleShared
       \<lparr>lastEditableSession := True, lastFileModifiedTime := 0,
        childProcess := \<lparr>alive = True, childJailId = ''j'',
          childFrames = [''child-s1 uno .uno:Save '' @ saveArgs True True]\<rparr>,
        lastSaveRequestTime := 5\<rparr>"

definition exampleSharedSaved :: DocumentBroker where
  "exampleSharedSaved =
     exampleSharedSaving
       \<lparr>storage := Some (exampleStorage
          \<lparr>fileInfo := (fileInfo exampleStorage)\<lparr>infoModifiedTime := 101\<rparr>,
           uploads := [''T''], infoRequests := [''T'']\<rparr>),
        tileCache := Some (exampleTileCache\<lparr>cacheModifiedTime := 8\<rparr>),
        lastSaveTime := 9, lastFileModifiedTime := 8, documentLastModifiedTime := 101,
        wakeups := 1\<rparr>"

definition exampleSharedClosing :: DocumentBroker where
  "exampleSharedClosing =
     exampleSharedSaving
       \<lparr>sessions := [(exampleSession ''s1'')\<lparr>closeFrame := True\<rparr>, exampleViewer ''s2'']\<rparr>"

section \<open>Operations and the modified flag\<close>

text \<open>The state an outcome ends in, after a return or a throw.\<close>

definition finalState :: "('a, 's) outcome \<Rightarrow> 's option" where
  "finalState out = (case out of Return v s \<Rightarrow> Some s | Throw e s \<Rightarrow> Some s | Abort \<Rightarrow> None)"

text \<open>The constructor, with the kit handle that \<^verbatim>\<open>pollThread\<close> obtains before its main loop.
  \<^verbatim>\<open>Poco::Timestamp\<close> members start at the wall-clock time of construction.\<close>

definition newDocumentBroker ::
  "Config \<Rightarrow> string \<Rightarrow> string \<Rightarrow> string \<Rightarrow> string \<Rightarrow> timepoint \<Rightarrow> timestamp \<Rightarrow> ChildProcess \<Rightarrow>
   DocumentBroker option" where
  "newDocumentBroker cfg key ident root cache now wallclock child =
     (if key = [] \<or> root = [] then None
      else Some
        \<lparr>docKey = key, docId = ident, jailId = [], childRoot = root, cacheRootPath = cache,
         uriJailed = [], docFilename = [], sessions = [], storage = None, tileCache = None,
         childProcess = child,
         lastSaveTime = now,
         lastSaveRequestTime = now - COMMAND_TIMEOUT_MS cfg * 1000000,
         lastActivityTime = 0,
         lastFileModifiedTime = wallclock, documentLastModifiedTime = wallclock,
         markToDestroy = False, lastEditableSession = False, isLoaded = False,
         isModified = False, stop = False, wakeups = 0, tokens = []\<rparr>)"

text \<open>\<^verbatim>\<open>_tileCache->hasUnsavedChanges()\<close> where there is a tile cache, and
  \<^verbatim>\<open>_storage->isLoaded()\<close> where there is a storage.\<close>

definition unsavedFlag :: "DocumentBroker \<Rightarrow> bool" where
  "unsavedFlag b = (case tileCache b of None \<Rightarrow> False | Some tc \<Rightarrow> unsavedChanges tc)"

definition storageIsLoaded :: "DocumentBroker \<Rightarrow> bool" where
  "storageIsLoaded b = (case storage b of None \<Rightarrow> False | Some st \<Rightarrow> storageLoaded st)"

text \<open>The invariant: a modified document has unsaved changes in its tile cache; and a tile
  cache exists only over a storage that has downloaded its file.\<close>

definition brokerInv :: "DocumentBroker \<Rightarrow> bool" where
  "brokerInv b =
     ((isModified b \<longrightarrow> unsavedFlag b) \<and> (tileCache b \<noteq> None \<longrightarrow> storageIsLoaded b))"

text \<open>The operations on a broker, with what they read from outside, and the broker each
  leaves behind (\<open>None\<close> when the process aborts).\<close>

datatype operation =
    SetModified bool
  | SaveToStorage SaveEnv string bool string
  | AutoSave bool timepoint
  | SendUnoSave string bool bool timepoint
  | ForwardToChild string string
  | DestroyIfLastEditor string
  | RemoveSession string bool timepoint
  | Load LoadEnv ClientSession
  | AddSession LoadEnv ClientSession
  | TimerActions PollEnv timepoint string

fun perform :: "Config \<Rightarrow> operation \<Rightarrow> DocumentBroker \<Rightarrow> DocumentBroker option" where
  "perform cfg (SetModified v) b = finalState (setModified v b)"
| "perform cfg (SaveToStorage env k success result) b = finalState (saveToStorage env k success result b)"
| "perform cfg (AutoSave force now) b = finalState (autoSave cfg force now b)"
| "perform cfg (SendUnoSave k d1 d2 now) b = finalState (sendUnoSave k d1 d2 now b)"
| "perform cfg (ForwardToChild k msg) b = finalState (forwardToChild k msg b)"
| "perform cfg (DestroyIfLastEditor k) b = Some (destroyIfLastEditor k b)"
| "perform cfg (RemoveSession k destroyIfLast now) b = finalState (removeSession cfg k destroyIfLast now b)"
| "perform cfg (Load env s) b = map_option fst (finalState (load cfg env s b))"
| "perform cfg (AddSession env s) b = map_option fst (finalState (addSession cfg env s b))"
| "perform cfg (TimerActions env t reason) b =
     map_option loopBroker
       (finalState (timerActions cfg env
          \<lparr>loopBroker = b, last30SecCheckTime = t, closeReason = reason\<rparr>))"

section \<open>Example URIs\<close>

text \<open>The document key of a parsed URI.\<close>

definition docKeyOfParsed :: "URI \<Rightarrow> uri_error + string" where
  "docKeyOfParsed parsed =
     (case sanitizeParsed parsed of
        Inl e \<Rightarrow> Inl e
      | Inr u \<Rightarrow> getDocKey u)"

text \<open>A parser for the examples: it reads strings of the form \<^verbatim>\<open>scheme://host/path\<close>, which
  \<^verbatim>\<open>Poco::URI\<close> splits at the colon and at the first slash after the host, decoding the path.\<close>

definition exampleParseURI :: "string \<Rightarrow> URI option" where
  "exampleParseURI str =
     (let sch = takeWhile (\<lambda>c. c \<noteq> CHR '':'') str;
          rest = drop (length sch + 3) str;
          hst = takeWhile (\<lambda>c. c \<noteq> CHR ''/'') rest;
          pth = dropWhile (\<lambda>c. c \<noteq> CHR ''/'') rest
      in case decode pth of
           None \<Rightarrow> None
         | Some decodedPath \<Rightarrow>
             Some \<lparr>uriScheme = sch, uriUserInfo = [], uriHost = hst, uriPort = 0,
                   uriPath = decodedPath, uriQueryParameters = Some [], uriFragment = []\<rparr>)"

section \<open>Facts about the session map and the kit frames\<close>

lemma sessions_childSendTextFrame [simp]: "sessions (childSendTextFrame m b) = sessions b"
  by (simp add: childSendTextFrame_def)

lemma flags_childSendTextFrame [simp]:
  "stop (childSendTextFrame m b) = stop b"
  "markToDestroy (childSendTextFrame m b) = markToDestroy b"
  "lastEditableSession (childSendTextFrame m b) = lastEditableSession b"
  "isModified (childSendTextFrame m b) = isModified b"
  "tileCache (childSendTextFrame m b) = tileCache b"
  "storage (childSendTextFrame m b) = storage b"
  by (simp_all add: childSendTextFrame_def)

lemma sessions_destroyIfLastEditor [simp]: "sessions (destroyIfLastEditor k b) = sessions b"
  by (simp add: destroyIfLastEditor_def Let_def split: option.splits)

lemma findSession_Nil [simp]: "findSession k [] = None"
  by (simp add: findSession_def)

lemma findSession_eraseSession [simp]: "findSession k (eraseSession k ss) = None"
  by (induction ss) (auto simp: findSession_def eraseSession_def)

lemma findSession_None_iff: "findSession k ss = None \<longleftrightarrow> k \<notin> sid ` set ss"
  by (auto simp: findSession_def find_None_iff)

lemma eraseSession_absent: "findSession k ss = None \<Longrightarrow> eraseSession k ss = ss"
  by (induction ss) (auto simp: findSession_def eraseSession_def split: if_splits)

lemma removeSessionInternal_returns:
  "\<exists>b'. removeSessionInternal k b = Return (length (eraseSession k (sessions b))) b'
        \<and> sessions b' = eraseSession k (sessions b)
        \<and> stop b' = stop b \<and> markToDestroy b' = markToDestroy b
        \<and> isModified b' = isModified b \<and> tileCache b' = tileCache b \<and> storage b' = storage b"
  by (cases "findSession k (sessions b)")
     (simp_all add: removeSessionInternal_def Let_def eraseSession_absent)

lemma otherEditableLoop_iff:
  "otherEditableLoop k ss les \<longleftrightarrow>
     les \<and> (\<forall>s \<in> set ss. sid s \<noteq> k \<and> viewLoaded s \<longrightarrow> readOnly s)"
  by (induction ss) auto

lemma tokenizeFrom_blank:
  "tokenizeFrom cur (x @ CHR '' '' # y) = tokenizeFrom cur x @ tokenizeFrom [] y"
  by (induction x arbitrary: cur) auto

lemma tokenizeFrom_nonempty: "cur \<noteq> [] \<Longrightarrow> tokenizeFrom cur s \<noteq> []"
  by (induction s arbitrary: cur) auto

lemma tokenizeFrom_word:
  "CHR '' '' \<notin> set w \<Longrightarrow> cur @ w \<noteq> [] \<Longrightarrow> tokenizeFrom cur w = [cur @ w]"
  by (induction w arbitrary: cur) auto

lemma saveArgs_brace: "\<exists>rest. saveArgs d1 d2 = CHR ''{'' # rest"
  by (simp add: saveArgs_def)

lemma tokenize_save_command:
  "\<exists>t ts a. tokenize (''child-'' @ k @ '' '' @ ''uno .uno:Save '' @ saveArgs d1 d2)
              = (t # ts) @ [''uno'', ''.uno:Save''] @ a \<and> a \<noteq> []
            \<and> (CHR '' '' \<notin> set k \<longrightarrow> ts = [])"
proof -
  obtain rest where r: "saveArgs d1 d2 = CHR ''{'' # rest"
    using saveArgs_brace by blast
  have shape: "''child-'' @ k @ '' '' @ ''uno .uno:Save '' @ saveArgs d1 d2
        = (''child-'' @ k) @ CHR '' '' # (''uno'' @ CHR '' '' # (''.uno:Save'' @ CHR '' '' # saveArgs d1 d2))"
    by simp
  have split: "tokenize (''child-'' @ k @ '' '' @ ''uno .uno:Save '' @ saveArgs d1 d2)
        = tokenizeFrom [] (''child-'' @ k) @ [''uno'', ''.uno:Save''] @ tokenizeFrom [] (saveArgs d1 d2)"
    unfolding tokenize_def shape tokenizeFrom_blank by simp
  have head: "tokenizeFrom [] (''child-'' @ k) = tokenizeFrom ''child-'' k"
    by simp
  have "tokenizeFrom ''child-'' k \<noteq> []"
    by (rule tokenizeFrom_nonempty) simp
  then obtain t ts where tts: "tokenizeFrom ''child-'' k = t # ts"
    by (cases "tokenizeFrom ''child-'' k") auto
  have tail: "tokenizeFrom [] (saveArgs d1 d2) \<noteq> []"
    unfolding r using tokenizeFrom_nonempty [of "''{''" rest] by simp
  have word: "CHR '' '' \<notin> set k \<longrightarrow> ts = []"
    using tokenizeFrom_word [of k "''child-''"] tts by auto
  show ?thesis
    using split head tts tail word by auto
qed

lemma forwardToChild_save:
  assumes "findSession k (sessions b) \<noteq> None" and "uriJailed b \<noteq> []"
  shows "\<exists>frame. forwardToChild k (''uno .uno:Save '' @ saveArgs d1 d2) b
                   = Return True (childSendTextFrame frame b)
               \<and> (CHR '' '' \<notin> set k \<longrightarrow>
                    frame = ''child-'' @ k @ '' uno .uno:Save '' @ saveArgs d1 d2)"
proof -
  obtain t ts a where
    toks: "tokenize (''child-'' @ k @ '' '' @ ''uno .uno:Save '' @ saveArgs d1 d2)
             = (t # ts) @ [''uno'', ''.uno:Save''] @ a"
    and a: "a \<noteq> []" and word: "CHR '' '' \<notin> set k \<longrightarrow> ts = []"
    using tokenize_save_command by blast
  have len: "\<not> length (tokenize (''child-'' @ k @ '' '' @ ''uno .uno:Save '' @ saveArgs d1 d2)) < 3"
    unfolding toks by simp
  have second: "CHR '' '' \<notin> set k \<Longrightarrow>
      tokenize (''child-'' @ k @ '' '' @ ''uno .uno:Save '' @ saveArgs d1 d2) ! 1 \<noteq> ''load''"
    unfolding toks using word by simp
  from assms obtain s where s: "findSession k (sessions b) = Some s"
    by auto
  show ?thesis
    using s assms(2) len second
    by (auto simp: forwardToChild_def Let_def)
qed

lemma savingSessionLoop_in:
  "savingSessionLoop ss acc \<in> insert acc (sid ` set ss)"
  by (induction ss arbitrary: acc) (auto simp: Let_def)

lemma savingSessionLoop_found:
  "ss \<noteq> [] \<Longrightarrow> findSession (savingSessionLoop ss []) ss \<noteq> None"
proof (cases ss)
  case Nil
  then show "ss \<noteq> [] \<Longrightarrow> ?thesis" by simp
next
  case (Cons s rest)
  have "savingSessionLoop (s # rest) [] \<in> sid ` set (s # rest)"
    using savingSessionLoop_in [of rest "sid s"] by (auto simp: Let_def)
  then show ?thesis
    unfolding Cons findSession_None_iff by blast
qed

lemma sendUnoSave_found:
  assumes "findSession k (sessions b) \<noteq> None" and "uriJailed b \<noteq> []"
  shows "\<exists>frame. sendUnoSave k d1 d2 now b
                   = Return True ((childSendTextFrame frame (b\<lparr>lastFileModifiedTime := 0\<rparr>))
                                    \<lparr>lastSaveRequestTime := now\<rparr>)
               \<and> (CHR '' '' \<notin> set k \<longrightarrow>
                    frame = ''child-'' @ k @ '' uno .uno:Save '' @ saveArgs d1 d2)"
proof -
  have f: "findSession k (sessions (b\<lparr>lastFileModifiedTime := 0\<rparr>)) \<noteq> None"
    and u: "uriJailed (b\<lparr>lastFileModifiedTime := 0\<rparr>) \<noteq> []"
    using assms by simp_all
  from forwardToChild_save [OF f u, of d1 d2] obtain frame where
    fw: "forwardToChild k (''uno .uno:Save '' @ saveArgs d1 d2) (b\<lparr>lastFileModifiedTime := 0\<rparr>)
           = Return True (childSendTextFrame frame (b\<lparr>lastFileModifiedTime := 0\<rparr>))"
    and fr: "CHR '' '' \<notin> set k \<longrightarrow> frame = ''child-'' @ k @ '' uno .uno:Save '' @ saveArgs d1 d2"
    by blast
  from assms(1) obtain s where s: "findSession k (sessions b) = Some s"
    by auto
  show ?thesis
    using s fw fr by (auto simp: sendUnoSave_def Let_def)
qed

lemma sendUnoSave_outcome:
  "sendUnoSave k d1 d2 now b = Return r b' \<Longrightarrow>
     sessions b' = sessions b \<and> stop b' = stop b \<and> markToDestroy b' = markToDestroy b
     \<and> lastEditableSession b' = lastEditableSession b
     \<and> isModified b' = isModified b \<and> tileCache b' = tileCache b \<and> storage b' = storage b"
  by (auto simp: sendUnoSave_def forwardToChild_def Let_def
           split: option.splits outcome.splits if_splits)

lemma sendUnoSave_no_throw: "sendUnoSave k d1 d2 now b \<noteq> Throw e b'"
  by (auto simp: sendUnoSave_def forwardToChild_def Let_def
           split: option.splits outcome.splits if_splits)

lemma autoSave_outcome:
  "autoSave cfg force now b = Return r b' \<Longrightarrow>
     sessions b' = sessions b \<and> stop b' = stop b \<and> markToDestroy b' = markToDestroy b
     \<and> lastEditableSession b' = lastEditableSession b
     \<and> isModified b' = isModified b \<and> tileCache b' = tileCache b \<and> storage b' = storage b"
  by (auto simp: autoSave_def Let_def split: if_splits dest!: sendUnoSave_outcome)

lemma autoSave_no_throw: "autoSave cfg force now b \<noteq> Throw e b'"
  by (auto simp: autoSave_def Let_def sendUnoSave_no_throw split: if_splits)

section \<open>Skipped uploads\<close>

text \<open>
  Claim C3. \<^verbatim>\<open>saveToStorageInternal\<close> returns true, stamps the last-save-completed time with
  the clock, wakes the poll loop and leaves the storage untouched (no upload) in two cases:
  (a) \<^verbatim>\<open>success\<close> is false and the result is \<^verbatim>\<open>"unmodified"\<close>; (b) the session is in the map,
  the modification time of the local file equals \<^verbatim>\<open>_lastFileModifiedTime\<close> and
  \<^verbatim>\<open>_lastEditableSession\<close> is false (the storage, whose file is inspected, being there).
  Outside case (a) a session id that is not in the map gives false and no change at all.
\<close>

theorem saveToStorageInternal_skips_upload:
  "(\<not> success \<and> result = ''unmodified'' \<longrightarrow>
      saveToStorageInternal env k success result b =
        Return True (b\<lparr>lastSaveTime := saveNow env, wakeups := wakeups b + 1\<rparr>))
   \<and> (findSession k (sessions b) \<noteq> None \<and> storage b \<noteq> None \<and>
        newFileModifiedTime env = lastFileModifiedTime b \<and> \<not> lastEditableSession b \<longrightarrow>
      saveToStorageInternal env k success result b =
        Return True (b\<lparr>lastSaveTime := saveNow env, wakeups := wakeups b + 1\<rparr>))
   \<and> (findSession k (sessions b) = None \<and> \<not> (\<not> success \<and> result = ''unmodified'') \<longrightarrow>
      saveToStorageInternal env k success result b = Return False b)
   \<and> storage (b\<lparr>lastSaveTime := saveNow env, wakeups := wakeups b + 1\<rparr>) = storage b"
  by (auto simp: saveToStorageInternal_def)

theorem saveToStorageInternal_skips_upload_witness:
  "findSession ''s1'' (sessions (exampleBroker [exampleSession ''s1''])) \<noteq> None
   \<and> storage (exampleBroker [exampleSession ''s1'']) \<noteq> None
   \<and> newFileModifiedTime ((exampleSaveEnv OK)\<lparr>newFileModifiedTime := 7\<rparr>)
       = lastFileModifiedTime (exampleBroker [exampleSession ''s1''])
   \<and> \<not> lastEditableSession (exampleBroker [exampleSession ''s1''])
   \<and> saveToStorageInternal ((exampleSaveEnv OK)\<lparr>newFileModifiedTime := 7\<rparr>) ''s1'' True ''''
        (exampleBroker [exampleSession ''s1''])
      = Return True ((exampleBroker [exampleSession ''s1''])\<lparr>lastSaveTime := 9, wakeups := 1\<rparr>)
   \<and> saveToStorageInternal (exampleSaveEnv OK) ''s1'' False ''unmodified''
        (exampleBroker [exampleSession ''s1''])
      = Return True ((exampleBroker [exampleSession ''s1''])\<lparr>lastSaveTime := 9, wakeups := 1\<rparr>)
   \<and> saveToStorageInternal ((exampleSaveEnv OK)\<lparr>newFileModifiedTime := 7\<rparr>) ''s2'' True ''''
        (exampleBroker [exampleSession ''s1''])
      = Return False (exampleBroker [exampleSession ''s1''])"
  using saveToStorageInternal_skips_upload
          [of True "''''" "(exampleSaveEnv OK)\<lparr>newFileModifiedTime := 7\<rparr>" "''s1''"
              "exampleBroker [exampleSession ''s1'']"]
        saveToStorageInternal_skips_upload
          [of False "''unmodified''" "exampleSaveEnv OK" "''s1''"
              "exampleBroker [exampleSession ''s1'']"]
        saveToStorageInternal_skips_upload
          [of True "''''" "(exampleSaveEnv OK)\<lparr>newFileModifiedTime := 7\<rparr>" "''s2''"
              "exampleBroker [exampleSession ''s1'']"]
  by (simp add: exampleBroker_def exampleSession_def exampleSaveEnv_def findSession_def)

section \<open>Autosave\<close>

text \<open>
  Claim C5. \<^verbatim>\<open>autoSave(force)\<close> does nothing and returns false whenever the broker has no
  sessions, or no storage, or is not loaded, or its child is not alive, or \<^verbatim>\<open>force\<close> is false
  and the document is not modified. When none of these holds and \<^verbatim>\<open>force\<close> is true it sends
  one frame to the kit, the save command of the chosen session, and returns true, whatever
  the modified flag: the frame is \<^verbatim>\<open>child-<id> uno .uno:Save <args>\<close> for an id without a
  blank. (The jailed URI is set on a loaded document: \<^verbatim>\<open>forwardToChild\<close> asserts it.)
\<close>

theorem autoSave_guard_and_forced_save:
  "(sessions b = [] \<or> storage b = None \<or> \<not> isLoaded b \<or> \<not> alive (childProcess b) \<or>
      (\<not> force \<and> \<not> isModified b) \<longrightarrow>
      autoSave cfg force now b = Return False b)
   \<and> (sessions b \<noteq> [] \<and> storage b \<noteq> None \<and> isLoaded b \<and> alive (childProcess b) \<and>
        uriJailed b \<noteq> [] \<longrightarrow>
      (\<exists>frame.
         autoSave cfg True now b
           = Return True ((childSendTextFrame frame (b\<lparr>lastFileModifiedTime := 0\<rparr>))
                            \<lparr>lastSaveRequestTime := now\<rparr>)
         \<and> (CHR '' '' \<notin> set (savingSessionLoop (sessions b) []) \<longrightarrow>
              frame = ''child-'' @ savingSessionLoop (sessions b) [] @ '' uno .uno:Save '' @
                      saveArgs (dontTerminateEditDefault cfg) (dontSaveIfUnmodifiedDefault cfg))))"
proof (intro conjI impI)
  assume "sessions b = [] \<or> storage b = None \<or> \<not> isLoaded b \<or> \<not> alive (childProcess b) \<or>
          (\<not> force \<and> \<not> isModified b)"
  then show "autoSave cfg force now b = Return False b"
    by (auto simp: autoSave_def)
next
  assume h: "sessions b \<noteq> [] \<and> storage b \<noteq> None \<and> isLoaded b \<and> alive (childProcess b) \<and>
             uriJailed b \<noteq> []"
  then have found: "findSession (savingSessionLoop (sessions b) []) (sessions b) \<noteq> None"
    using savingSessionLoop_found by blast
  have unfold: "autoSave cfg True now b
      = sendUnoSave (savingSessionLoop (sessions b) []) (dontTerminateEditDefault cfg)
          (dontSaveIfUnmodifiedDefault cfg) now b"
    using h by (auto simp: autoSave_def Let_def)
  show "\<exists>frame.
         autoSave cfg True now b
           = Return True ((childSendTextFrame frame (b\<lparr>lastFileModifiedTime := 0\<rparr>))
                            \<lparr>lastSaveRequestTime := now\<rparr>)
         \<and> (CHR '' '' \<notin> set (savingSessionLoop (sessions b) []) \<longrightarrow>
              frame = ''child-'' @ savingSessionLoop (sessions b) [] @ '' uno .uno:Save '' @
                      saveArgs (dontTerminateEditDefault cfg) (dontSaveIfUnmodifiedDefault cfg))"
    unfolding unfold using sendUnoSave_found [OF found] h by blast
qed

theorem autoSave_guard_and_forced_save_witness:
  "sessions (exampleBroker [exampleSession ''s1'']) \<noteq> []
   \<and> storage (exampleBroker [exampleSession ''s1'']) \<noteq> None
   \<and> isLoaded (exampleBroker [exampleSession ''s1''])
   \<and> alive (childProcess (exampleBroker [exampleSession ''s1'']))
   \<and> uriJailed (exampleBroker [exampleSession ''s1'']) \<noteq> []
   \<and> \<not> isModified (exampleBroker [exampleSession ''s1''])
   \<and> autoSave exampleConfig True 5 (exampleBroker [exampleSession ''s1''])
      = Return True
          ((exampleBroker [exampleSession ''s1''])
             \<lparr>lastFileModifiedTime := 0,
              childProcess := \<lparr>alive = True, childJailId = ''j'',
                childFrames = [''child-s1 uno .uno:Save {\"DontTerminateEdit\":{\"type\":\"boolean\",\"value\":true},\"DontSaveIfUnmodified\":{\"type\":\"boolean\",\"value\":true}}'']\<rparr>,
              lastSaveRequestTime := 5\<rparr>)
   \<and> autoSave exampleConfig False 5 (exampleBroker [exampleSession ''s1''])
      = Return False (exampleBroker [exampleSession ''s1''])
   \<and> autoSave exampleConfig True 5 (exampleBroker [])
      = Return False (exampleBroker [])"
  using autoSave_guard_and_forced_save
          [of "exampleBroker [exampleSession ''s1'']" True exampleConfig 5]
        autoSave_guard_and_forced_save
          [of "exampleBroker [exampleSession ''s1'']" False exampleConfig 5]
        autoSave_guard_and_forced_save
          [of "exampleBroker []" True exampleConfig 5]
  by (simp add: exampleBroker_def exampleSession_def exampleConfig_def saveArgs_def
                childSendTextFrame_def)

section \<open>Failed uploads and teardown\<close>

lemma findSession_map:
  "(\<And>s. sid (f s) = sid s) \<Longrightarrow> findSession k (map f ss) = map_option f (findSession k ss)"
  by (induction ss) (auto simp: findSession_def)

lemma findSession_some_nonempty: "findSession k ss = Some s \<Longrightarrow> ss \<noteq> []"
  by (cases ss) auto

lemma sids_eraseSession: "map sid (eraseSession k ss) = filter (\<lambda>i. i \<noteq> k) (map sid ss)"
  by (induction ss) (auto simp: eraseSession_def)

lemma sids_updateSession: "map sid (updateSession k (sendTextFrame m) ss) = map sid ss"
  by (induction ss) (auto simp: updateSession_def sendTextFrame_def)

lemma saveToStorageInternal_returns:
  assumes "storage b \<noteq> None" and "tileCache b \<noteq> None"
  shows "\<exists>r b1. saveToStorageInternal env k success result b = Return r b1
           \<and> markToDestroy b1 = markToDestroy b \<and> stop b1 = stop b
           \<and> map sid (sessions b1) = map sid (sessions b)"
  using assms
  by (cases "storageSaveResult env")
     (auto simp: saveToStorageInternal_def Let_def sids_updateSession sendTextFrame_def
                 setReadOnly_def comp_def
           split: option.splits)

text \<open>
  Claim C4. When the upload made by \<^verbatim>\<open>saveToStorageInternal\<close> answers \<^verbatim>\<open>DISKFULL\<close>, every
  session of the map is set read-only and is sent the text frame
  \<^verbatim>\<open>error: cmd=storage kind=savediskfull\<close>; the function returns false and the stop flag keeps
  its value. Through \<^verbatim>\<open>saveToStorage\<close> the flag keeps its value too, unless the broker was
  marked to destroy or the saving session is closing.
\<close>

theorem saveToStorageInternal_diskfull:
  assumes "findSession k (sessions b) = Some it"
    and "storage b = Some st" and "tileCache b = Some tc"
    and "success \<or> result \<noteq> ''unmodified''"
    and "lastEditableSession b \<or> newFileModifiedTime env \<noteq> lastFileModifiedTime b"
    and "storageSaveResult env = DISKFULL"
  shows "saveToStorageInternal env k success result b
           = Return False
               (b\<lparr>storage := Some (st\<lparr>uploads := uploads st @ [accessToken it]\<rparr>),
                  sessions := map (\<lambda>s. s\<lparr>readOnly := True,
                                           sentFrames := sentFrames s @
                                             [''error: cmd=storage kind=savediskfull'']\<rparr>)
                                  (sessions b)\<rparr>)
         \<and> stop (b\<lparr>storage := Some (st\<lparr>uploads := uploads st @ [accessToken it]\<rparr>),
                    sessions := map (\<lambda>s. s\<lparr>readOnly := True,
                                           sentFrames := sentFrames s @
                                             [''error: cmd=storage kind=savediskfull'']\<rparr>)
                                  (sessions b)\<rparr>) = stop b
         \<and> (\<not> markToDestroy b \<and> \<not> closeFrame it \<longrightarrow>
              saveToStorage env k success result b
                = Return False
                    (b\<lparr>storage := Some (st\<lparr>uploads := uploads st @ [accessToken it]\<rparr>),
                       sessions := map (\<lambda>s. s\<lparr>readOnly := True,
                                                sentFrames := sentFrames s @
                                                  [''error: cmd=storage kind=savediskfull'']\<rparr>)
                                       (sessions b)\<rparr>))"
proof -
  let ?f = "\<lambda>s. s\<lparr>readOnly := True,
                    sentFrames := sentFrames s @ [''error: cmd=storage kind=savediskfull'']\<rparr>"
  let ?b1 = "b\<lparr>storage := Some (st\<lparr>uploads := uploads st @ [accessToken it]\<rparr>),
               sessions := map ?f (sessions b)\<rparr>"
  have i: "saveToStorageInternal env k success result b = Return False ?b1"
    using assms
    by (auto simp: saveToStorageInternal_def Let_def sendTextFrame_def setReadOnly_def)
  have f: "findSession k (sessions ?b1) = Some (?f it)"
    using assms(1) findSession_map [of ?f k "sessions b"] by simp
  have ne: "sessions ?b1 \<noteq> []"
    using f findSession_some_nonempty by blast
  have o: "\<not> markToDestroy b \<and> \<not> closeFrame it \<longrightarrow>
             saveToStorage env k success result b = Return False ?b1"
    using i f ne by (simp add: saveToStorage_def Let_def)
  show ?thesis
    using i o by simp
qed

theorem saveToStorageInternal_diskfull_witness:
  "findSession ''s1'' (sessions (exampleBroker [exampleSession ''s1'', exampleSession ''s2'']))
     = Some (exampleSession ''s1'')
   \<and> storage (exampleBroker [exampleSession ''s1'', exampleSession ''s2'']) = Some exampleStorage
   \<and> tileCache (exampleBroker [exampleSession ''s1'', exampleSession ''s2'']) = Some exampleTileCache
   \<and> newFileModifiedTime (exampleSaveEnv DISKFULL)
       \<noteq> lastFileModifiedTime (exampleBroker [exampleSession ''s1'', exampleSession ''s2''])
   \<and> storageSaveResult (exampleSaveEnv DISKFULL) = DISKFULL
   \<and> saveToStorage (exampleSaveEnv DISKFULL) ''s1'' True []
        (exampleBroker [exampleSession ''s1'', exampleSession ''s2''])
      = Return False
          ((exampleBroker
              [(exampleSession ''s1'')
                 \<lparr>readOnly := True, sentFrames := [''error: cmd=storage kind=savediskfull'']\<rparr>,
               (exampleSession ''s2'')
                 \<lparr>readOnly := True, sentFrames := [''error: cmd=storage kind=savediskfull'']\<rparr>])
             \<lparr>storage := Some (exampleStorage\<lparr>uploads := [''T'']\<rparr>)\<rparr>)
   \<and> \<not> stop ((exampleBroker
              [(exampleSession ''s1'')
                 \<lparr>readOnly := True, sentFrames := [''error: cmd=storage kind=savediskfull'']\<rparr>,
               (exampleSession ''s2'')
                 \<lparr>readOnly := True, sentFrames := [''error: cmd=storage kind=savediskfull'']\<rparr>])
             \<lparr>storage := Some (exampleStorage\<lparr>uploads := [''T'']\<rparr>)\<rparr>)"
proof -
  let ?B = "exampleBroker [exampleSession ''s1'', exampleSession ''s2'']"
  have h1: "findSession ''s1'' (sessions ?B) = Some (exampleSession ''s1'')"
    by (simp add: exampleBroker_def exampleSession_def findSession_def)
  have h2: "storage ?B = Some exampleStorage" and h3: "tileCache ?B = Some exampleTileCache"
    by (simp_all add: exampleBroker_def)
  have h4: "True \<or> [] \<noteq> ''unmodified''" by simp
  have h5: "lastEditableSession ?B
            \<or> newFileModifiedTime (exampleSaveEnv DISKFULL) \<noteq> lastFileModifiedTime ?B"
    by (simp add: exampleBroker_def exampleSaveEnv_def)
  have h6: "storageSaveResult (exampleSaveEnv DISKFULL) = DISKFULL"
    by (simp add: exampleSaveEnv_def)
  show ?thesis
    using saveToStorageInternal_diskfull [OF h1 h2 h3 h4 h5 h6] h1 h2 h3 h6
    by (simp add: exampleBroker_def exampleSession_def exampleStorage_def exampleSaveEnv_def)
qed

text \<open>
  Claim C10. Whenever \<^verbatim>\<open>saveToStorage\<close> runs on a broker whose \<^verbatim>\<open>_markToDestroy\<close> flag is
  true (its storage and tile cache being there), it returns with the originating session
  removed and the stop flag set, whatever the upload answered: also when the inner save
  returns false after \<^verbatim>\<open>UNAUTHORIZED\<close>, \<^verbatim>\<open>FAILED\<close> or \<^verbatim>\<open>DISKFULL\<close>.
\<close>

theorem saveToStorage_marked_to_destroy:
  assumes "markToDestroy b" and "storage b \<noteq> None" and "tileCache b \<noteq> None"
  shows "\<exists>res b'. saveToStorage env k success result b = Return res b'
           \<and> findSession k (sessions b') = None
           \<and> map sid (sessions b') = filter (\<lambda>i. i \<noteq> k) (map sid (sessions b))
           \<and> stop b' \<and> markToDestroy b'
           \<and> (findSession k (sessions b) \<noteq> None \<and> (success \<or> result \<noteq> ''unmodified'') \<and>
                (lastEditableSession b \<or> newFileModifiedTime env \<noteq> lastFileModifiedTime b) \<and>
                storageSaveResult env \<noteq> OK \<longrightarrow> \<not> res)"
proof -
  obtain r b1 where i: "saveToStorageInternal env k success result b = Return r b1"
    and m: "markToDestroy b1" and s: "map sid (sessions b1) = map sid (sessions b)"
    using saveToStorageInternal_returns [OF assms(2) assms(3), of env k success result] assms(1)
    by auto
  obtain b2 where r: "removeSessionInternal k b1 = Return (length (eraseSession k (sessions b1))) b2"
    and rs: "sessions b2 = eraseSession k (sessions b1)" and rm: "markToDestroy b2"
    using removeSessionInternal_returns [of k b1] m by auto
  have o: "saveToStorage env k success result b = Return r (b2\<lparr>stop := True\<rparr>)"
    using i m r rm by (simp add: saveToStorage_def Let_def)
  have ids: "map sid (sessions (b2\<lparr>stop := True\<rparr>)) = filter (\<lambda>i. i \<noteq> k) (map sid (sessions b))"
    using rs s by (simp add: sids_eraseSession)
  have res: "findSession k (sessions b) \<noteq> None \<and> (success \<or> result \<noteq> ''unmodified'') \<and>
             (lastEditableSession b \<or> newFileModifiedTime env \<noteq> lastFileModifiedTime b) \<and>
             storageSaveResult env \<noteq> OK \<longrightarrow> \<not> r"
    using i assms(1)
    by (cases "storageSaveResult env")
       (auto simp: saveToStorageInternal_def Let_def split: option.splits if_splits)
  show ?thesis
    using o ids res rs rm by auto
qed

theorem saveToStorage_marked_to_destroy_witness:
  "markToDestroy ((exampleBroker [exampleSession ''s1''])\<lparr>markToDestroy := True\<rparr>)
   \<and> storage ((exampleBroker [exampleSession ''s1''])\<lparr>markToDestroy := True\<rparr>) \<noteq> None
   \<and> tileCache ((exampleBroker [exampleSession ''s1''])\<lparr>markToDestroy := True\<rparr>) \<noteq> None
   \<and> (\<exists>b'. saveToStorage (exampleSaveEnv UNAUTHORIZED) ''s1'' True []
               ((exampleBroker [exampleSession ''s1''])\<lparr>markToDestroy := True\<rparr>) = Return False b'
           \<and> sessions b' = [] \<and> stop b')"
proof -
  let ?B = "(exampleBroker [exampleSession ''s1''])\<lparr>markToDestroy := True\<rparr>"
  have h1: "markToDestroy ?B" by simp
  have h2: "storage ?B \<noteq> None" and h3: "tileCache ?B \<noteq> None"
    by (simp_all add: exampleBroker_def)
  have f: "findSession ''s1'' (sessions ?B) \<noteq> None"
    by (simp add: exampleBroker_def exampleSession_def findSession_def)
  have u: "newFileModifiedTime (exampleSaveEnv UNAUTHORIZED) \<noteq> lastFileModifiedTime ?B"
    and v: "storageSaveResult (exampleSaveEnv UNAUTHORIZED) \<noteq> OK"
    by (simp_all add: exampleBroker_def exampleSaveEnv_def)
  have ids: "filter (\<lambda>i. i \<noteq> ''s1'') (map sid (sessions ?B)) = []"
    by (simp add: exampleBroker_def exampleSession_def)
  from saveToStorage_marked_to_destroy
         [OF h1 h2 h3, of "exampleSaveEnv UNAUTHORIZED" "''s1''" True "[]"]
  obtain res b' where
    "saveToStorage (exampleSaveEnv UNAUTHORIZED) ''s1'' True [] ?B = Return res b'"
    and "map sid (sessions b') = filter (\<lambda>i. i \<noteq> ''s1'') (map sid (sessions ?B))"
    and "stop b'"
    and "findSession ''s1'' (sessions ?B) \<noteq> None \<and> (True \<or> [] \<noteq> ''unmodified'') \<and>
         (lastEditableSession ?B \<or>
          newFileModifiedTime (exampleSaveEnv UNAUTHORIZED) \<noteq> lastFileModifiedTime ?B) \<and>
         storageSaveResult (exampleSaveEnv UNAUTHORIZED) \<noteq> OK \<longrightarrow> \<not> res"
    by blast
  then show ?thesis
    using h1 h2 h3 f u v unfolding ids by auto
qed

section \<open>Deferred removal of the last editor\<close>

text \<open>
  The flag computed by \<^verbatim>\<open>destroyIfLastEditor\<close>, the two ways out of \<^verbatim>\<open>removeSession\<close>, and
  what \<^verbatim>\<open>saveToStorage\<close> leaves on a broker marked to destroy or with an empty map.
\<close>

lemma removeSession_outcomes:
  "(findSession k (sessions b) = Some cur \<longrightarrow>
      lastEditableSession (destroyIfLastEditor k b)
        = (\<not> readOnly cur \<and> (\<forall>s \<in> set (sessions b). sid s \<noteq> k \<and> viewLoaded s \<longrightarrow> readOnly s)))
   \<and> (lastEditableSession (destroyIfLastEditor k b) \<and>
        autoSave cfg True now (destroyIfLastEditor k b) = Return True b2 \<longrightarrow>
      removeSession cfg k True now b = Return (length (sessions b)) b2 \<and>
      sessions b2 = sessions b)
   \<and> (\<not> lastEditableSession (destroyIfLastEditor k b) \<or>
        autoSave cfg True now (destroyIfLastEditor k b) = Return False b2 \<longrightarrow>
      (\<exists>b'. removeSession cfg k True now b = Return (length (eraseSession k (sessions b))) b' \<and>
            sessions b' = eraseSession k (sessions b) \<and>
            findSession k (sessions b') = None))
   \<and> (saveToStorage env k success result b = Return res b3 \<and>
        (markToDestroy b \<or> sessions b3 = []) \<longrightarrow>
      findSession k (sessions b3) = None \<and> stop b3)
   \<and> (sessions b = [cur] \<and> sid cur = k \<longrightarrow>
        markToDestroy (destroyIfLastEditor k b) \<and>
        savingSessionLoop (sessions (destroyIfLastEditor k b)) [] = k)"
proof (intro conjI impI)
  assume "findSession k (sessions b) = Some cur"
  then show "lastEditableSession (destroyIfLastEditor k b)
        = (\<not> readOnly cur \<and> (\<forall>s \<in> set (sessions b). sid s \<noteq> k \<and> viewLoaded s \<longrightarrow> readOnly s))"
    by (auto simp: destroyIfLastEditor_def Let_def otherEditableLoop_iff findSession_def
             dest: find_Some_iff [THEN iffD1])
next
  assume h: "lastEditableSession (destroyIfLastEditor k b) \<and>
             autoSave cfg True now (destroyIfLastEditor k b) = Return True b2"
  then have s: "sessions b2 = sessions b"
    using autoSave_outcome [of cfg True now "destroyIfLastEditor k b" True b2] by simp
  show "removeSession cfg k True now b = Return (length (sessions b)) b2"
    using h s by (simp add: removeSession_def Let_def)
  show "sessions b2 = sessions b" by (rule s)
next
  assume h: "\<not> lastEditableSession (destroyIfLastEditor k b) \<or>
             autoSave cfg True now (destroyIfLastEditor k b) = Return False b2"
  show "\<exists>b'. removeSession cfg k True now b = Return (length (eraseSession k (sessions b))) b' \<and>
            sessions b' = eraseSession k (sessions b) \<and> findSession k (sessions b') = None"
  proof (cases "lastEditableSession (destroyIfLastEditor k b)")
    case False
    then show ?thesis
      using removeSessionInternal_returns [of k "destroyIfLastEditor k b"]
      by (auto simp: removeSession_def Let_def)
  next
    case True
    with h have a: "autoSave cfg True now (destroyIfLastEditor k b) = Return False b2"
      by simp
    then have s: "sessions b2 = sessions b"
      using autoSave_outcome [of cfg True now "destroyIfLastEditor k b" False b2] by simp
    show ?thesis
      using True a s removeSessionInternal_returns [of k b2]
      by (auto simp: removeSession_def Let_def)
  qed
next
  assume h: "saveToStorage env k success result b = Return res b3 \<and>
             (markToDestroy b \<or> sessions b3 = [])"
  then obtain r1 b1 where i: "saveToStorageInternal env k success result b = Return r1 b1"
    by (auto simp: saveToStorage_def split: outcome.splits)
  have m: "markToDestroy b1 = markToDestroy b"
    using i by (auto simp: saveToStorageInternal_def Let_def
                     split: if_splits option.splits SaveResult.splits)
  obtain b' where r: "removeSessionInternal k b1 = Return (length (eraseSession k (sessions b1))) b'"
    and rs: "sessions b' = eraseSession k (sessions b1)" and rm: "markToDestroy b' = markToDestroy b1"
    using removeSessionInternal_returns [of k b1] by blast
  show "findSession k (sessions b3) = None"
    using h i m r rs rm
    by (auto simp: saveToStorage_def Let_def split: if_splits option.splits)
  show "stop b3"
    using h i m r rs rm
    by (auto simp: saveToStorage_def Let_def split: if_splits option.splits)
next
  assume only: "sessions b = [cur] \<and> sid cur = k"
  then show "markToDestroy (destroyIfLastEditor k b)"
    by (simp add: destroyIfLastEditor_def findSession_def Let_def)
  show "savingSessionLoop (sessions (destroyIfLastEditor k b)) [] = k"
    using only by (simp add: Let_def)
qed

lemma saveToStorageInternal_closeFrame:
  "saveToStorageInternal env k success result b = Return r b1 \<Longrightarrow>
     map_option closeFrame (findSession k (sessions b1))
       = map_option closeFrame (findSession k (sessions b))"
proof -
  have all: "findSession k (map (\<lambda>s. sendTextFrame m (setReadOnly s)) ss)
             = map_option (\<lambda>s. sendTextFrame m (setReadOnly s)) (findSession k ss)" for m ss
    by (rule findSession_map) (simp add: sendTextFrame_def setReadOnly_def)
  have one: "findSession k (updateSession j (sendTextFrame m) ss)
             = map_option (\<lambda>s. if sid s = j then sendTextFrame m s else s) (findSession k ss)"
    for j m ss
    unfolding updateSession_def
    by (rule findSession_map) (simp add: sendTextFrame_def)
  have cf1: "closeFrame (sendTextFrame m s) = closeFrame s" for m s
    by (simp add: sendTextFrame_def)
  have cf2: "closeFrame (setReadOnly s) = closeFrame s" for s
    by (simp add: setReadOnly_def)
  assume "saveToStorageInternal env k success result b = Return r b1"
  then show ?thesis
    by (cases "storageSaveResult env")
       (auto simp: saveToStorageInternal_def Let_def all one cf1 cf2
             split: option.splits if_splits)
qed

lemma saveToStorageInternal_keeps_sessions:
  assumes "storage b \<noteq> None" and "tileCache b \<noteq> None"
  shows "\<exists>r b1. saveToStorageInternal env k success result b = Return r b1
           \<and> markToDestroy b1 = markToDestroy b \<and> stop b1 = stop b
           \<and> map sid (sessions b1) = map sid (sessions b)
           \<and> map_option closeFrame (findSession k (sessions b1))
               = map_option closeFrame (findSession k (sessions b))"
  using saveToStorageInternal_returns [OF assms, of env k success result]
        saveToStorageInternal_closeFrame [of env k success result b]
  by blast

text \<open>
  Claim C1, as amended. In \<^verbatim>\<open>removeSession(id, destroyIfLast = true)\<close>, when
  \<^verbatim>\<open>destroyIfLastEditor\<close> finds the departing session to be the last editable one (it is
  writable and no other session with a loaded view is) and the forced autosave returns
  true, the session map is left as it was: the removal is deferred. When the session is not
  the last editable one, or the forced autosave returns false, the session is erased at
  once. The broker is marked to destroy only when the departing session is the only one.
  \<^verbatim>\<open>saveToStorage\<close>, called for a session of the map on a broker with its storage and tile
  cache, removes that session exactly when the broker is marked to destroy or the session
  has its close frame set, and then sets the stop flag when the broker is marked to destroy
  or the map has become empty; otherwise it leaves the session in the map and the stop flag
  as it was. For a departing session that is the only one the forced save is sent in its
  own name.
\<close>

theorem removeSession_deferred_removal:
  "(findSession k (sessions b) = Some cur \<longrightarrow>
      lastEditableSession (destroyIfLastEditor k b)
        = (\<not> readOnly cur \<and> (\<forall>s \<in> set (sessions b). sid s \<noteq> k \<and> viewLoaded s \<longrightarrow> readOnly s))
      \<and> markToDestroy (destroyIfLastEditor k b) = (length (sessions b) \<le> 1))
   \<and> (lastEditableSession (destroyIfLastEditor k b) \<and>
        autoSave cfg True now (destroyIfLastEditor k b) = Return True b2 \<longrightarrow>
      removeSession cfg k True now b = Return (length (sessions b)) b2 \<and>
      sessions b2 = sessions b \<and>
      markToDestroy b2 = markToDestroy (destroyIfLastEditor k b))
   \<and> (\<not> lastEditableSession (destroyIfLastEditor k b) \<or>
        autoSave cfg True now (destroyIfLastEditor k b) = Return False b2 \<longrightarrow>
      (\<exists>b'. removeSession cfg k True now b = Return (length (eraseSession k (sessions b))) b' \<and>
            sessions b' = eraseSession k (sessions b) \<and>
            findSession k (sessions b') = None))
   \<and> (storage b \<noteq> None \<and> tileCache b \<noteq> None \<and> findSession k (sessions b) = Some cur \<and>
        (markToDestroy b \<or> closeFrame cur) \<longrightarrow>
      (\<exists>res b3. saveToStorage env k success result b = Return res b3 \<and>
                findSession k (sessions b3) = None \<and>
                map sid (sessions b3) = filter (\<lambda>i. i \<noteq> k) (map sid (sessions b)) \<and>
                stop b3 = (stop b \<or> markToDestroy b \<or> sessions b3 = [])))
   \<and> (storage b \<noteq> None \<and> tileCache b \<noteq> None \<and> findSession k (sessions b) = Some cur \<and>
        \<not> markToDestroy b \<and> \<not> closeFrame cur \<longrightarrow>
      (\<exists>res b3. saveToStorage env k success result b = Return res b3 \<and>
                findSession k (sessions b3) \<noteq> None \<and>
                map sid (sessions b3) = map sid (sessions b) \<and>
                stop b3 = stop b))
   \<and> (saveToStorage env k success result b = Return res' b3' \<and>
        (markToDestroy b \<or> sessions b3' = []) \<longrightarrow>
      findSession k (sessions b3') = None \<and> stop b3')
   \<and> (sessions b = [cur] \<and> sid cur = k \<longrightarrow>
        markToDestroy (destroyIfLastEditor k b) \<and>
        savingSessionLoop (sessions (destroyIfLastEditor k b)) [] = k)"
proof -
  note old = removeSession_outcomes
               [where k = k and b = b and cur = cur and cfg = cfg and now = now and ?b2.0 = b2
                  and env = env and success = success and result = result and res = res'
                  and ?b3.0 = b3']
  have p1: "findSession k (sessions b) = Some cur \<longrightarrow>
      lastEditableSession (destroyIfLastEditor k b)
        = (\<not> readOnly cur \<and> (\<forall>s \<in> set (sessions b). sid s \<noteq> k \<and> viewLoaded s \<longrightarrow> readOnly s))
      \<and> markToDestroy (destroyIfLastEditor k b) = (length (sessions b) \<le> 1)"
  proof
    assume f: "findSession k (sessions b) = Some cur"
    have "markToDestroy (destroyIfLastEditor k b) = (length (sessions b) \<le> 1)"
      using f by (simp add: destroyIfLastEditor_def Let_def)
    then show "lastEditableSession (destroyIfLastEditor k b)
        = (\<not> readOnly cur \<and> (\<forall>s \<in> set (sessions b). sid s \<noteq> k \<and> viewLoaded s \<longrightarrow> readOnly s))
      \<and> markToDestroy (destroyIfLastEditor k b) = (length (sessions b) \<le> 1)"
      using old f by blast
  qed
  have p2: "lastEditableSession (destroyIfLastEditor k b) \<and>
        autoSave cfg True now (destroyIfLastEditor k b) = Return True b2 \<longrightarrow>
      removeSession cfg k True now b = Return (length (sessions b)) b2 \<and>
      sessions b2 = sessions b \<and>
      markToDestroy b2 = markToDestroy (destroyIfLastEditor k b)"
  proof
    assume h: "lastEditableSession (destroyIfLastEditor k b) \<and>
        autoSave cfg True now (destroyIfLastEditor k b) = Return True b2"
    then have "markToDestroy b2 = markToDestroy (destroyIfLastEditor k b)"
      using autoSave_outcome [of cfg True now "destroyIfLastEditor k b" True b2] by simp
    then show "removeSession cfg k True now b = Return (length (sessions b)) b2 \<and>
      sessions b2 = sessions b \<and>
      markToDestroy b2 = markToDestroy (destroyIfLastEditor k b)"
      using old h by blast
  qed
  have p3: "\<not> lastEditableSession (destroyIfLastEditor k b) \<or>
        autoSave cfg True now (destroyIfLastEditor k b) = Return False b2 \<longrightarrow>
      (\<exists>b'. removeSession cfg k True now b = Return (length (eraseSession k (sessions b))) b' \<and>
            sessions b' = eraseSession k (sessions b) \<and>
            findSession k (sessions b') = None)"
    using old by blast
  have p4: "storage b \<noteq> None \<and> tileCache b \<noteq> None \<and> findSession k (sessions b) = Some cur \<and>
        (markToDestroy b \<or> closeFrame cur) \<longrightarrow>
      (\<exists>res b3. saveToStorage env k success result b = Return res b3 \<and>
                findSession k (sessions b3) = None \<and>
                map sid (sessions b3) = filter (\<lambda>i. i \<noteq> k) (map sid (sessions b)) \<and>
                stop b3 = (stop b \<or> markToDestroy b \<or> sessions b3 = []))"
  proof
    assume h: "storage b \<noteq> None \<and> tileCache b \<noteq> None \<and> findSession k (sessions b) = Some cur \<and>
        (markToDestroy b \<or> closeFrame cur)"
    then obtain r b1 where i: "saveToStorageInternal env k success result b = Return r b1"
      and m: "markToDestroy b1 = markToDestroy b" and st: "stop b1 = stop b"
      and ids: "map sid (sessions b1) = map sid (sessions b)"
      and cf: "map_option closeFrame (findSession k (sessions b1)) = Some (closeFrame cur)"
      using saveToStorageInternal_keeps_sessions [of b env k success result] by auto
    obtain b2' where r: "removeSessionInternal k b1 = Return (length (eraseSession k (sessions b1))) b2'"
      and rs: "sessions b2' = eraseSession k (sessions b1)"
      and rst: "stop b2' = stop b1" and rm: "markToDestroy b2' = markToDestroy b1"
      using removeSessionInternal_returns [of k b1] by blast
    let ?b3 = "if markToDestroy b2' \<or> sessions b2' = [] then b2'\<lparr>stop := True\<rparr> else b2'"
    have go: "markToDestroy b1 \<or> (case findSession k (sessions b1) of Some s \<Rightarrow> closeFrame s | None \<Rightarrow> False)"
      using h m cf by (cases "findSession k (sessions b1)") auto
    have o: "saveToStorage env k success result b = Return r ?b3"
      using i r go by (simp add: saveToStorage_def Let_def)
    have s3: "sessions ?b3 = eraseSession k (sessions b1)"
      using rs by simp
    have "findSession k (sessions ?b3) = None"
      unfolding s3 by simp
    moreover have "map sid (sessions ?b3) = filter (\<lambda>i. i \<noteq> k) (map sid (sessions b))"
      unfolding s3 using ids by (simp add: sids_eraseSession)
    moreover have "stop ?b3 = (stop b \<or> markToDestroy b \<or> sessions ?b3 = [])"
      using rst rm m st rs by auto
    ultimately show "\<exists>res b3. saveToStorage env k success result b = Return res b3 \<and>
                findSession k (sessions b3) = None \<and>
                map sid (sessions b3) = filter (\<lambda>i. i \<noteq> k) (map sid (sessions b)) \<and>
                stop b3 = (stop b \<or> markToDestroy b \<or> sessions b3 = [])"
      using o by blast
  qed
  have p5: "storage b \<noteq> None \<and> tileCache b \<noteq> None \<and> findSession k (sessions b) = Some cur \<and>
        \<not> markToDestroy b \<and> \<not> closeFrame cur \<longrightarrow>
      (\<exists>res b3. saveToStorage env k success result b = Return res b3 \<and>
                findSession k (sessions b3) \<noteq> None \<and>
                map sid (sessions b3) = map sid (sessions b) \<and>
                stop b3 = stop b)"
  proof
    assume h: "storage b \<noteq> None \<and> tileCache b \<noteq> None \<and> findSession k (sessions b) = Some cur \<and>
        \<not> markToDestroy b \<and> \<not> closeFrame cur"
    then obtain r b1 where i: "saveToStorageInternal env k success result b = Return r b1"
      and m: "markToDestroy b1 = markToDestroy b" and st: "stop b1 = stop b"
      and ids: "map sid (sessions b1) = map sid (sessions b)"
      and cf: "map_option closeFrame (findSession k (sessions b1)) = Some (closeFrame cur)"
      using saveToStorageInternal_keeps_sessions [of b env k success result] by auto
    from cf obtain s1 where f1: "findSession k (sessions b1) = Some s1" and c1: "closeFrame s1 = closeFrame cur"
      by (cases "findSession k (sessions b1)") auto
    have ne: "sessions b1 \<noteq> []"
      using f1 findSession_some_nonempty by blast
    have o: "saveToStorage env k success result b = Return r b1"
      using i f1 c1 h m ne by (simp add: saveToStorage_def Let_def)
    show "\<exists>res b3. saveToStorage env k success result b = Return res b3 \<and>
                findSession k (sessions b3) \<noteq> None \<and>
                map sid (sessions b3) = map sid (sessions b) \<and>
                stop b3 = stop b"
      using o f1 ids st by auto
  qed
  have p6: "saveToStorage env k success result b = Return res' b3' \<and>
        (markToDestroy b \<or> sessions b3' = []) \<longrightarrow>
      findSession k (sessions b3') = None \<and> stop b3'"
    using old by blast
  have p7: "sessions b = [cur] \<and> sid cur = k \<longrightarrow>
        markToDestroy (destroyIfLastEditor k b) \<and>
        savingSessionLoop (sessions (destroyIfLastEditor k b)) [] = k"
    using old by blast
  show ?thesis
    by (intro conjI) (fact p1, fact p2, fact p3, fact p4, fact p5, fact p6, fact p7)
qed

theorem removeSession_deferred_removal_witness:
  "findSession ''s1'' (sessions exampleShared) = Some (exampleSession ''s1'')
   \<and> lastEditableSession (destroyIfLastEditor ''s1'' exampleShared)
   \<and> \<not> markToDestroy (destroyIfLastEditor ''s1'' exampleShared)
   \<and> autoSave exampleConfig True 5 (destroyIfLastEditor ''s1'' exampleShared)
       = Return True exampleSharedSaving
   \<and> removeSession exampleConfig ''s1'' True 5 exampleShared = Return 2 exampleSharedSaving
   \<and> \<not> markToDestroy exampleSharedSaving
   \<and> storage exampleSharedClosing \<noteq> None \<and> tileCache exampleSharedClosing \<noteq> None
   \<and> findSession ''s1'' (sessions exampleSharedClosing)
       = Some ((exampleSession ''s1'')\<lparr>closeFrame := True\<rparr>)
   \<and> closeFrame ((exampleSession ''s1'')\<lparr>closeFrame := True\<rparr>)
   \<and> (\<exists>res b3. saveToStorage (exampleSaveEnv OK) ''s1'' True [] exampleSharedClosing
                   = Return res b3
               \<and> findSession ''s1'' (sessions b3) = None
               \<and> map sid (sessions b3) = [''s2''] \<and> \<not> stop b3)
   \<and> storage exampleSharedSaving \<noteq> None \<and> tileCache exampleSharedSaving \<noteq> None
   \<and> findSession ''s1'' (sessions exampleSharedSaving) = Some (exampleSession ''s1'')
   \<and> \<not> closeFrame (exampleSession ''s1'')
   \<and> (\<exists>res b3. saveToStorage (exampleSaveEnv OK) ''s1'' True [] exampleSharedSaving
                   = Return res b3
               \<and> findSession ''s1'' (sessions b3) \<noteq> None
               \<and> map sid (sessions b3) = [''s1'', ''s2''] \<and> \<not> stop b3)
   \<and> \<not> lastEditableSession
         (destroyIfLastEditor ''s1'' (exampleBroker [exampleSession ''s1'', exampleSession ''s2'']))
   \<and> (\<exists>b'. removeSession exampleConfig ''s1'' True 5
               (exampleBroker [exampleSession ''s1'', exampleSession ''s2'']) = Return 1 b'
           \<and> sessions b' = [exampleSession ''s2''])
   \<and> markToDestroy (destroyIfLastEditor ''s1'' (exampleBroker [exampleSession ''s1'']))
   \<and> savingSessionLoop
         (sessions (destroyIfLastEditor ''s1'' (exampleBroker [exampleSession ''s1'']))) [] = ''s1''
   \<and> (\<exists>b3. saveToStorage (exampleSaveEnv FAILED) ''s1'' True []
                  ((exampleBroker [exampleSession ''s1''])
                     \<lparr>lastEditableSession := True, markToDestroy := True\<rparr>) = Return False b3
              \<and> sessions b3 = [] \<and> stop b3)"
proof -
  let ?s1 = "exampleSession ''s1''"
  let ?c1 = "(exampleSession ''s1'')\<lparr>closeFrame := True\<rparr>"
  let ?B = "exampleBroker [exampleSession ''s1'']"
  let ?C = "exampleBroker [exampleSession ''s1'', exampleSession ''s2'']"
  let ?D = "?B\<lparr>lastEditableSession := True, markToDestroy := True\<rparr>"
  note ex = exampleSharedClosing_def exampleSharedSaving_def exampleShared_def
            exampleViewer_def exampleBroker_def exampleSession_def
  have f: "findSession ''s1'' (sessions exampleShared) = Some ?s1"
    by (simp add: ex findSession_def)
  have d: "destroyIfLastEditor ''s1'' exampleShared = exampleShared\<lparr>lastEditableSession := True\<rparr>"
    by (simp add: destroyIfLastEditor_def Let_def ex findSession_def)
  have l: "lastEditableSession (destroyIfLastEditor ''s1'' exampleShared)"
    unfolding d by simp
  have nm: "\<not> markToDestroy (destroyIfLastEditor ''s1'' exampleShared)"
    unfolding d by (simp add: ex)
  have a: "autoSave exampleConfig True 5 (destroyIfLastEditor ''s1'' exampleShared)
             = Return True exampleSharedSaving"
    unfolding d
    by (simp add: autoSave_def sendUnoSave_def forwardToChild_def Let_def tokenize_def
                  ex exampleConfig_def findSession_def saveArgs_def childSendTextFrame_def)
  note t1 = removeSession_deferred_removal
              [where k = "''s1''" and b = exampleShared and cur = ?s1
                 and cfg = exampleConfig and now = 5 and ?b2.0 = exampleSharedSaving]
  have c1: "removeSession exampleConfig ''s1'' True 5 exampleShared = Return 2 exampleSharedSaving"
  proof -
    have "removeSession exampleConfig ''s1'' True 5 exampleShared
            = Return (length (sessions exampleShared)) exampleSharedSaving"
      using t1 [THEN conjunct2, THEN conjunct1] l a by simp
    then show ?thesis by (simp add: ex)
  qed
  have nm2: "\<not> markToDestroy exampleSharedSaving"
    by (simp add: ex)
  have st2: "\<not> stop exampleSharedSaving" "\<not> stop exampleSharedClosing"
    by (simp_all add: ex)
  have nm3: "\<not> markToDestroy exampleSharedClosing"
    by (simp add: ex)
  have sc: "storage exampleSharedClosing \<noteq> None" "tileCache exampleSharedClosing \<noteq> None"
    by (simp_all add: ex)
  have fc: "findSession ''s1'' (sessions exampleSharedClosing) = Some ?c1"
    by (simp add: ex findSession_def)
  have cc: "closeFrame ?c1"
    by simp
  have idc: "map sid (sessions exampleSharedClosing) = [''s1'', ''s2'']"
    by (simp add: ex)
  note t2 = removeSession_deferred_removal
              [where k = "''s1''" and b = exampleSharedClosing and cur = ?c1
                 and env = "exampleSaveEnv OK" and success = True and result = "[]"]
  have c2a: "\<exists>res b3. saveToStorage (exampleSaveEnv OK) ''s1'' True [] exampleSharedClosing
                   = Return res b3
               \<and> findSession ''s1'' (sessions b3) = None
               \<and> map sid (sessions b3)
                   = filter (\<lambda>i. i \<noteq> ''s1'') (map sid (sessions exampleSharedClosing))
               \<and> stop b3 = (stop exampleSharedClosing \<or> markToDestroy exampleSharedClosing
                              \<or> sessions b3 = [])"
    using t2 [THEN conjunct2, THEN conjunct2, THEN conjunct2, THEN conjunct1] sc fc cc
    by simp
  have c2: "\<exists>res b3. saveToStorage (exampleSaveEnv OK) ''s1'' True [] exampleSharedClosing
                   = Return res b3
               \<and> findSession ''s1'' (sessions b3) = None
               \<and> map sid (sessions b3) = [''s2''] \<and> \<not> stop b3"
  proof -
    from c2a obtain res b3 where
      o: "saveToStorage (exampleSaveEnv OK) ''s1'' True [] exampleSharedClosing = Return res b3"
      and g: "findSession ''s1'' (sessions b3) = None"
      and i: "map sid (sessions b3)
                = filter (\<lambda>i. i \<noteq> ''s1'') (map sid (sessions exampleSharedClosing))"
      and s: "stop b3 = (stop exampleSharedClosing \<or> markToDestroy exampleSharedClosing
                              \<or> sessions b3 = [])"
      by blast
    have i2: "map sid (sessions b3) = [''s2'']"
      using i unfolding idc by simp
    then have "sessions b3 \<noteq> []" by auto
    then have "\<not> stop b3"
      using s st2 nm3 by simp
    then have all: "saveToStorage (exampleSaveEnv OK) ''s1'' True [] exampleSharedClosing
                      = Return res b3
                    \<and> findSession ''s1'' (sessions b3) = None
                    \<and> map sid (sessions b3) = [''s2''] \<and> \<not> stop b3"
      using o g i2 by simp
    show ?thesis
      by (rule exI [where x = res], rule exI [where x = b3]) (rule all)
  qed
  have ss: "storage exampleSharedSaving \<noteq> None" "tileCache exampleSharedSaving \<noteq> None"
    by (simp_all add: ex)
  have fs: "findSession ''s1'' (sessions exampleSharedSaving) = Some ?s1"
    by (simp add: ex findSession_def)
  have ncf: "\<not> closeFrame ?s1"
    by (simp add: exampleSession_def)
  have ids: "map sid (sessions exampleSharedSaving) = [''s1'', ''s2'']"
    by (simp add: ex)
  note t3 = removeSession_deferred_removal
              [where k = "''s1''" and b = exampleSharedSaving and cur = ?s1
                 and env = "exampleSaveEnv OK" and success = True and result = "[]"]
  have c3: "\<exists>res b3. saveToStorage (exampleSaveEnv OK) ''s1'' True [] exampleSharedSaving
                   = Return res b3
               \<and> findSession ''s1'' (sessions b3) \<noteq> None
               \<and> map sid (sessions b3) = [''s1'', ''s2''] \<and> \<not> stop b3"
    using t3 [THEN conjunct2, THEN conjunct2, THEN conjunct2, THEN conjunct2, THEN conjunct1]
          ss fs ncf nm2 st2(1) ids
    by simp
  have n: "\<not> lastEditableSession (destroyIfLastEditor ''s1'' ?C)"
    by (simp add: destroyIfLastEditor_def Let_def exampleBroker_def exampleSession_def
                  findSession_def)
  note t4 = removeSession_deferred_removal
              [where k = "''s1''" and b = ?C and cfg = exampleConfig and now = 5]
  have c4a: "\<exists>b'. removeSession exampleConfig ''s1'' True 5 ?C
                   = Return (length (eraseSession ''s1'' (sessions ?C))) b'
                \<and> sessions b' = eraseSession ''s1'' (sessions ?C)"
    using t4 [THEN conjunct2, THEN conjunct2, THEN conjunct1] n by blast
  have es: "eraseSession ''s1'' (sessions ?C) = [exampleSession ''s2'']"
    by (simp add: exampleBroker_def exampleSession_def eraseSession_def)
  have c4: "\<exists>b'. removeSession exampleConfig ''s1'' True 5 ?C = Return 1 b'
                \<and> sessions b' = [exampleSession ''s2'']"
    using c4a unfolding es by simp
  have sb: "sessions ?B = [?s1] \<and> sid ?s1 = ''s1''"
    by (simp add: exampleBroker_def exampleSession_def)
  note t5 = removeSession_deferred_removal
              [where k = "''s1''" and b = ?B and cur = ?s1]
  have c5: "markToDestroy (destroyIfLastEditor ''s1'' ?B)
            \<and> savingSessionLoop (sessions (destroyIfLastEditor ''s1'' ?B)) [] = ''s1''"
    using t5 [THEN conjunct2, THEN conjunct2, THEN conjunct2, THEN conjunct2, THEN conjunct2,
              THEN conjunct2] sb
    by blast
  have m: "markToDestroy ?D" by simp
  have "\<exists>b3. saveToStorage (exampleSaveEnv FAILED) ''s1'' True [] ?D = Return False b3
                 \<and> sessions b3 = []"
    by (simp add: saveToStorage_def saveToStorageInternal_def removeSessionInternal_def
                  exampleBroker_def exampleSession_def exampleSaveEnv_def findSession_def
                  eraseSession_def updateSession_def sendTextFrame_def Let_def)
  then obtain b3 where s: "saveToStorage (exampleSaveEnv FAILED) ''s1'' True [] ?D = Return False b3"
    and e: "sessions b3 = []"
    by blast
  note t6 = removeSession_deferred_removal
              [where k = "''s1''" and b = ?D and env = "exampleSaveEnv FAILED"
                 and success = True and result = "[]" and res' = False and b3' = b3]
  have c6: "stop b3"
    using t6 [THEN conjunct2, THEN conjunct2, THEN conjunct2, THEN conjunct2, THEN conjunct2,
              THEN conjunct1] s m
    by blast
  have c6': "\<exists>b3. saveToStorage (exampleSaveEnv FAILED) ''s1'' True [] ?D = Return False b3
              \<and> sessions b3 = [] \<and> stop b3"
    using s e c6 by blast
  show ?thesis
    by (intro conjI) (fact f, fact l, fact nm, fact a, fact c1, fact nm2, fact sc(1),
                      fact sc(2), fact fc, fact cc, fact c2, fact ss(1), fact ss(2), fact fs,
                      fact ncf, fact c3, fact n, fact c4, fact c5 [THEN conjunct1],
                      fact c5 [THEN conjunct2], fact c6')
qed

text \<open>
  The editor \<^verbatim>\<open>s1\<close> leaves a document that the viewer \<^verbatim>\<open>s2\<close> keeps open. It is the last
  editable session and the forced autosave returns true, so \<^verbatim>\<open>removeSession\<close> leaves it
  in the map; the broker is not marked to destroy. The save then completes, the upload
  succeeds, and \<^verbatim>\<open>saveToStorage\<close> returns with \<^verbatim>\<open>s1\<close> still in the map and the stop flag
  unset: the deferred removal is not performed.
\<close>

theorem removeSession_viewer_left_counterexample:
  "lastEditableSession (destroyIfLastEditor ''s1'' exampleShared)
   \<and> autoSave exampleConfig True 5 (destroyIfLastEditor ''s1'' exampleShared)
       = Return True exampleSharedSaving
   \<and> removeSession exampleConfig ''s1'' True 5 exampleShared = Return 2 exampleSharedSaving
   \<and> saveToStorage (exampleSaveEnv OK) ''s1'' True [] exampleSharedSaving
       = Return True exampleSharedSaved
   \<and> findSession ''s1'' (sessions exampleSharedSaved) = Some (exampleSession ''s1'')
   \<and> \<not> stop exampleSharedSaved"
proof -
  have d: "destroyIfLastEditor ''s1'' exampleShared = exampleShared\<lparr>lastEditableSession := True\<rparr>"
    by (simp add: destroyIfLastEditor_def Let_def exampleShared_def exampleViewer_def
                  exampleBroker_def exampleSession_def findSession_def)
  have a: "autoSave exampleConfig True 5 (exampleShared\<lparr>lastEditableSession := True\<rparr>)
             = Return True exampleSharedSaving"
    by (simp add: autoSave_def sendUnoSave_def forwardToChild_def Let_def tokenize_def
                  exampleSharedSaving_def exampleShared_def exampleViewer_def
                  exampleBroker_def exampleSession_def exampleConfig_def findSession_def
                  saveArgs_def childSendTextFrame_def)
  have r: "removeSession exampleConfig ''s1'' True 5 exampleShared = Return 2 exampleSharedSaving"
    unfolding removeSession_def d using a
    by (simp add: exampleSharedSaving_def exampleShared_def exampleBroker_def)
  have s: "saveToStorage (exampleSaveEnv OK) ''s1'' True [] exampleSharedSaving
             = Return True exampleSharedSaved"
    by (simp add: saveToStorage_def saveToStorageInternal_def Let_def
                  exampleSharedSaved_def exampleSharedSaving_def exampleShared_def
                  exampleViewer_def exampleBroker_def exampleSession_def exampleSaveEnv_def
                  exampleStorage_def exampleTileCache_def findSession_def)
  have f: "findSession ''s1'' (sessions exampleSharedSaved) = Some (exampleSession ''s1'')"
    by (simp add: exampleSharedSaved_def exampleSharedSaving_def exampleShared_def
                  exampleViewer_def exampleBroker_def exampleSession_def findSession_def)
  have n: "\<not> stop exampleSharedSaved"
    by (simp add: exampleSharedSaved_def exampleSharedSaving_def exampleShared_def
                  exampleBroker_def)
  show ?thesis
    unfolding d using a r s f n by simp
qed

section \<open>The save-in-progress gate\<close>

lemma duration_ms_le:
  assumes "d \<le> t * 1000000"
  shows "duration_ms d \<le> t"
proof (cases "0 \<le> d")
  case True
  then have "duration_ms d = d div 1000000"
    by (simp add: duration_ms_def signed_divide_int_def sgn_if)
  moreover have "d div 1000000 \<le> t"
    using assms True by linarith
  ultimately show ?thesis by simp
next
  case False
  then have e: "duration_ms d = - ((- d) div 1000000)"
    by (simp add: duration_ms_def signed_divide_int_def sgn_if)
  have "- t \<le> (- d) div 1000000"
    using assms False by linarith
  then show ?thesis
    using e by simp
qed

text \<open>
  Claim C2. In an iteration of the poll loop in which, once \<^verbatim>\<open>poll\<close> has returned, a save is
  in flight (the last save completed before the last one was requested) and the time since
  the request does not exceed the command timeout, the body ends at \<^verbatim>\<open>continue\<close>: the state
  of the loop is the one that \<^verbatim>\<open>poll\<close> left. Stop is not set, no autosave is sent and the
  idle and dead checks are not made; the close reason and the autosave timer keep their
  values.
\<close>

theorem pollIteration_save_in_progress:
  assumes "lastSaveTime (pollEffect env (loopBroker ls))
             < lastSaveRequestTime (pollEffect env (loopBroker ls))"
    and "pollNow env - lastSaveRequestTime (pollEffect env (loopBroker ls))
           \<le> COMMAND_TIMEOUT_MS cfg * 1000000"
  shows "pollIteration cfg env ls = Return () (ls\<lparr>loopBroker := pollEffect env (loopBroker ls)\<rparr>)"
  using assms duration_ms_le
  by (simp add: pollIteration_def savingInProgress_def Let_def)

theorem pollIteration_save_in_progress_witness:
  "lastSaveTime (pollEffect \<lparr>pollEffect = (\<lambda>b. b), ShutdownRequestFlag = True, idleTimeSecs = 0,
                              pollNow = 6000000000, autoSaveNow = 6000000001,
                              afterSaveNow = 6000000002\<rparr>
                   (loopBroker \<lparr>loopBroker = (exampleBroker [exampleSession ''s1''])
                                               \<lparr>lastSaveRequestTime := 5000000000\<rparr>,
                                last30SecCheckTime = 0, closeReason = ''stopped''\<rparr>))
     < lastSaveRequestTime
         (pollEffect \<lparr>pollEffect = (\<lambda>b. b), ShutdownRequestFlag = True, idleTimeSecs = 0,
                       pollNow = 6000000000, autoSaveNow = 6000000001,
                       afterSaveNow = 6000000002\<rparr>
            (loopBroker \<lparr>loopBroker = (exampleBroker [exampleSession ''s1''])
                                        \<lparr>lastSaveRequestTime := 5000000000\<rparr>,
                         last30SecCheckTime = 0, closeReason = ''stopped''\<rparr>))
   \<and> pollIteration exampleConfig
         \<lparr>pollEffect = (\<lambda>b. b), ShutdownRequestFlag = True, idleTimeSecs = 0,
          pollNow = 6000000000, autoSaveNow = 6000000001, afterSaveNow = 6000000002\<rparr>
         \<lparr>loopBroker = (exampleBroker [exampleSession ''s1''])\<lparr>lastSaveRequestTime := 5000000000\<rparr>,
          last30SecCheckTime = 0, closeReason = ''stopped''\<rparr>
       = Return ()
           \<lparr>loopBroker = (exampleBroker [exampleSession ''s1''])\<lparr>lastSaveRequestTime := 5000000000\<rparr>,
            last30SecCheckTime = 0, closeReason = ''stopped''\<rparr>
   \<and> pollIteration exampleConfig
         \<lparr>pollEffect = (\<lambda>b. b), ShutdownRequestFlag = True, idleTimeSecs = 0,
          pollNow = 6000000000, autoSaveNow = 6000000001, afterSaveNow = 6000000002\<rparr>
         \<lparr>loopBroker = exampleBroker [exampleSession ''s1''],
          last30SecCheckTime = 0, closeReason = ''stopped''\<rparr>
       = Return ()
           \<lparr>loopBroker = (exampleBroker [exampleSession ''s1''])\<lparr>stop := True\<rparr>,
            last30SecCheckTime = 0, closeReason = ''recycling''\<rparr>"
proof -
  let ?env = "\<lparr>pollEffect = (\<lambda>b. b), ShutdownRequestFlag = True, idleTimeSecs = 0,
               pollNow = 6000000000, autoSaveNow = 6000000001, afterSaveNow = 6000000002\<rparr>"
  let ?ls = "\<lparr>loopBroker = (exampleBroker [exampleSession ''s1''])\<lparr>lastSaveRequestTime := 5000000000\<rparr>,
              last30SecCheckTime = 0, closeReason = ''stopped''\<rparr>"
  have h1: "lastSaveTime (pollEffect ?env (loopBroker ?ls))
              < lastSaveRequestTime (pollEffect ?env (loopBroker ?ls))"
    by (simp add: exampleBroker_def)
  have h2: "pollNow ?env - lastSaveRequestTime (pollEffect ?env (loopBroker ?ls))
              \<le> COMMAND_TIMEOUT_MS exampleConfig * 1000000"
    by (simp add: exampleBroker_def exampleConfig_def)
  have idle: "pollIteration exampleConfig ?env
                \<lparr>loopBroker = exampleBroker [exampleSession ''s1''],
                 last30SecCheckTime = 0, closeReason = ''stopped''\<rparr>
              = Return ()
                  \<lparr>loopBroker = (exampleBroker [exampleSession ''s1''])\<lparr>stop := True\<rparr>,
                   last30SecCheckTime = 0, closeReason = ''recycling''\<rparr>"
    by (simp add: pollIteration_def savingInProgress_def timerActions_def Let_def
                  exampleBroker_def exampleConfig_def)
  show ?thesis
    using pollIteration_save_in_progress [OF h1 h2] h1 idle by simp
qed

section \<open>Facts about loading\<close>

lemma finalState_simps [simp]:
  "finalState (Return v s) = Some s"
  "finalState (Throw e s) = Some s"
  "finalState Abort = None"
  by (simp_all add: finalState_def)

lemma rdidLoop_sid: "sid (snd (rdidLoop ps acc)) = sid (snd acc)"
  by (induction ps acc rule: rdidLoop.induct) (auto simp: sendTextFrame_def)

lemma nocheckLoop_iff: "nocheckLoop ps n \<longleftrightarrow> n \<and> (''docpass'', ''yes'') \<notin> set ps"
  by (induction ps n rule: nocheckLoop.induct) auto

lemma tokenUsed_simps:
  "token \<in> set ledger \<Longrightarrow> tokenUsed token ledger = (False, ledger)"
  "token \<notin> set ledger \<Longrightarrow> tokenUsed token ledger = (True, ledger @ [token])"
  by (simp_all add: tokenUsed_def count_list_0_iff)

lemma loadStorage_cases:
  "loadStorage env b = Return firstInstance (Some st) \<Longrightarrow>
     (storage b = Some st \<and> \<not> firstInstance) \<or>
     (storage b = None \<and> firstInstance \<and> createStorage env = Inr (Some st))"
  by (auto simp: loadStorage_def split: option.splits sum.splits)

lemma loadWopiInfo_final:
  "finalState (loadWopiInfo cfg env st b s) = Some ((b', s'), st') \<Longrightarrow>
     b' = b \<and> sid s' = sid s \<and> storageLoaded st' = storageLoaded st \<and> kind st' = kind st"
  by (auto simp: loadWopiInfo_def Let_def sendTextFrame_def setReadOnly_def
           split: sum.splits prod.splits if_splits)

lemma loadFileInfo_final:
  "finalState (loadFileInfo cfg env st b s) = Some ((b', s'), st') \<Longrightarrow>
     sid s' = sid s \<and> storageLoaded st' = storageLoaded st \<and> kind st' = kind st
     \<and> sessions b' = sessions b \<and> isModified b' = isModified b
     \<and> markToDestroy b' = markToDestroy b \<and> stop b' = stop b
     \<and> lastEditableSession b' = lastEditableSession b \<and> tileCache b' = tileCache b"
  by (auto simp: loadFileInfo_def Let_def sendTextFrame_def rdidLoop_sid
           split: if_splits dest!: loadWopiInfo_final)

lemma loadDocument_final:
  "finalState (loadDocument env st b) = Some b' \<Longrightarrow>
     sessions b' = sessions b \<and> isModified b' = isModified b
     \<and> markToDestroy b' = markToDestroy b \<and> stop b' = stop b
     \<and> lastEditableSession b' = lastEditableSession b
     \<and> ((tileCache b' = tileCache b \<and> storage b' = storage b) \<or>
         (\<not> storageLoaded st \<and> storage b' = Some (markStorageLoaded st) \<and>
          (\<exists>tc. tileCache b' = Some tc \<and> \<not> unsavedChanges tc)))"
  by (auto simp: loadDocument_def split: if_splits sum.splits)

lemma load_final:
  assumes "finalState (load cfg env s b) = Some (b', s')"
  shows "sid s' = sid s \<and> sessions b' = sessions b \<and> isModified b' = isModified b
         \<and> markToDestroy b' = markToDestroy b \<and> stop b' = stop b
         \<and> lastEditableSession b' = lastEditableSession b
         \<and> ((tileCache b' = tileCache b \<and> (storageIsLoaded b \<longrightarrow> storageIsLoaded b')) \<or>
             (\<not> storageIsLoaded b \<and> storageIsLoaded b' \<and> tileCache b' \<noteq> None \<and> \<not> unsavedFlag b'))"
proof (cases "filterLoad env")
  case (Some r)
  with assms show ?thesis by (simp add: load_def)
next
  case None
  show ?thesis
  proof (cases "markToDestroy b \<or> childJailId (childProcess b) = []")
    case True
    with assms None show ?thesis by (auto simp: load_def Let_def split: if_splits)
  next
    case False
    let ?b1 = "b\<lparr>jailId := childJailId (childProcess b)\<rparr>"
    show ?thesis
    proof (cases "loadStorage env ?b1")
      case Abort
      with assms None False show ?thesis by (simp add: load_def Let_def)
    next
      case (Throw e x)
      with assms None False show ?thesis
        by (auto simp: load_def Let_def storageIsLoaded_def)
    next
      case (Return firstInstance sto)
      show ?thesis
      proof (cases sto)
        case N: None
        with assms None False Return show ?thesis
          by (auto simp: load_def Let_def storageIsLoaded_def)
      next
        case (Some st)
        have origin: "storage b = Some st \<or> storage b = None"
          using loadStorage_cases [of env ?b1 firstInstance st] Return Some by auto
        then have mono: "storageIsLoaded b \<longrightarrow> storageLoaded st"
          by (auto simp: storageIsLoaded_def)
        let ?b2 = "?b1\<lparr>storage := Some st\<rparr>"
        show ?thesis
        proof (cases "loadFileInfo cfg env st ?b2 s")
          case Abort
          with assms None False Return Some show ?thesis by (simp add: load_def Let_def)
        next
          case (Throw e x)
          obtain b4 s4 st4 where x: "x = ((b4, s4), st4)" by (metis prod.exhaust)
          have fi: "sid s4 = sid s \<and> storageLoaded st4 = storageLoaded st
                    \<and> sessions b4 = sessions b \<and> isModified b4 = isModified b
                    \<and> markToDestroy b4 = markToDestroy b \<and> stop b4 = stop b
                    \<and> lastEditableSession b4 = lastEditableSession b \<and> tileCache b4 = tileCache b"
            using loadFileInfo_final [of cfg env st ?b2 s b4 s4 st4] Throw x by simp
          have r: "b' = b4\<lparr>storage := Some st4\<rparr> \<and> s' = s4"
            using assms None False Return Some Throw x by (simp add: load_def Let_def)
          show ?thesis
            using r fi mono by (simp add: storageIsLoaded_def)
        next
          case Ret: (Return ids x)
          obtain b4 s4 st4 where x: "x = ((b4, s4), st4)" by (metis prod.exhaust)
          obtain userid username where ids: "ids = (userid, username)" by (metis prod.exhaust)
          have fi: "sid s4 = sid s \<and> storageLoaded st4 = storageLoaded st
                    \<and> sessions b4 = sessions b \<and> isModified b4 = isModified b
                    \<and> markToDestroy b4 = markToDestroy b \<and> stop b4 = stop b
                    \<and> lastEditableSession b4 = lastEditableSession b \<and> tileCache b4 = tileCache b"
            using loadFileInfo_final [of cfg env st ?b2 s b4 s4 st4] Ret x by simp
          let ?s5 = "s4\<lparr>userId := userid, userName := username\<rparr>"
          let ?b5 = "b4\<lparr>storage := Some st4\<rparr>"
          let ?b6 = "if firstInstance
                     then ?b5\<lparr>documentLastModifiedTime := infoModifiedTime (fileInfo st4)\<rparr>
                     else ?b5"
          show ?thesis
          proof (cases "infoValid (fileInfo st4)")
            case invalid: False
            have r: "b' = ?b5 \<and> s' = ?s5"
              using assms None False Return Some Ret x ids invalid
              by (simp add: load_def Let_def)
            show ?thesis
              using r fi mono by (simp add: storageIsLoaded_def)
          next
            case valid: True
            have b6: "sessions ?b6 = sessions b \<and> isModified ?b6 = isModified b
                      \<and> markToDestroy ?b6 = markToDestroy b \<and> stop ?b6 = stop b
                      \<and> lastEditableSession ?b6 = lastEditableSession b
                      \<and> tileCache ?b6 = tileCache b \<and> storage ?b6 = Some st4"
              using fi by simp
            show ?thesis
            proof (cases "loadDocument env st4 ?b6")
              case Abort
              with assms None False Return Some Ret x ids valid show ?thesis
                by (simp add: load_def Let_def)
            next
              case T: (Throw e b7)
              have r: "b' = b7 \<and> s' = ?s5"
                using assms None False Return Some Ret x ids valid T
                by (simp add: load_def Let_def)
              have d: "finalState (loadDocument env st4 ?b6) = Some b7"
                using T by simp
              show ?thesis
                using loadDocument_final [OF d] r fi mono b6
                by (auto simp: storageIsLoaded_def unsavedFlag_def markStorageLoaded_def)
            next
              case R: (Return u b7)
              have r: "b' = b7 \<and> sid s' = sid s4"
                using assms None False Return Some Ret x ids valid R
                by (auto simp: load_def Let_def sendTextFrame_def)
              have d: "finalState (loadDocument env st4 ?b6) = Some b7"
                using R by simp
              show ?thesis
                using loadDocument_final [OF d] r fi mono b6
                by (auto simp: storageIsLoaded_def unsavedFlag_def markStorageLoaded_def)
            qed
          qed
        qed
      qed
    qed
  qed
qed

lemma load_preserves_inv:
  assumes "finalState (load cfg env s b) = Some (b', s')" and "brokerInv b"
  shows "brokerInv b'"
  using load_final [OF assms(1)] assms(2)
  by (auto simp: brokerInv_def unsavedFlag_def)

section \<open>Admitting a session\<close>

lemma findSession_emplaceSession: "findSession (sid s) (emplaceSession s ss) \<noteq> None"
  by (induction ss) (auto simp: findSession_def)

lemma findSession_emplaceSession_new:
  "findSession (sid s) ss = None \<Longrightarrow> findSession (sid s) (emplaceSession s ss) = Some s"
  by (induction ss) (auto simp: findSession_def split: if_splits)

lemma addSession_after_load:
  assumes "load cfg env s b = Return True (b1, s1)"
  shows "addSession cfg env s b
           = Return (length (emplaceSession (s1\<lparr>attached := True\<rparr>) (sessions b1)))
               ((childSendTextFrame (''session '' @ sid s1 @ '' '' @ docKey b1 @ '' '' @ docId b1)
                   (b1\<lparr>lastEditableSession := False, markToDestroy := False, stop := False\<rparr>))
                  \<lparr>sessions := emplaceSession (s1\<lparr>attached := True\<rparr>) (sessions b1)\<rparr>,
                s1\<lparr>attached := True\<rparr>)"
  using assms
  by (simp add: addSession_def addSessionInternal_def Let_def childSendTextFrame_def)

text \<open>
  Claim C6, as amended. \<^verbatim>\<open>addSession\<close> clears \<^verbatim>\<open>_lastEditableSession\<close>, \<^verbatim>\<open>_markToDestroy\<close> and
  \<^verbatim>\<open>_stop\<close> and puts the session into the map under its id (where the id is free) whenever
  \<^verbatim>\<open>load\<close> returns true. On a broker marked to destroy \<^verbatim>\<open>load\<close> returns false, the unit-test
  hook apart: \<^verbatim>\<open>addSession\<close> throws and leaves the broker and the session as they were.
\<close>

theorem addSession_revives_unless_marked:
  "(filterLoad env = None \<and> markToDestroy b \<longrightarrow>
      addSession cfg env s b
        = Throw (RuntimeError (''Failed to load document with URI ['' @ publicUri s @ ''].''))
            (b, s))
   \<and> (load cfg env s b = Return True (b1, s1) \<longrightarrow>
        (filterLoad env = None \<longrightarrow> \<not> markToDestroy b) \<and>
        (\<exists>b'. addSession cfg env s b = Return (length (sessions b')) (b', s1\<lparr>attached := True\<rparr>)
            \<and> \<not> lastEditableSession b' \<and> \<not> markToDestroy b' \<and> \<not> stop b'
            \<and> sessions b' = emplaceSession (s1\<lparr>attached := True\<rparr>) (sessions b)
            \<and> findSession (sid s) (sessions b') \<noteq> None
            \<and> (findSession (sid s) (sessions b) = None \<longrightarrow>
                 findSession (sid s) (sessions b') = Some (s1\<lparr>attached := True\<rparr>))))"
proof (intro conjI impI)
  assume h: "filterLoad env = None \<and> markToDestroy b"
  then have l: "load cfg env s b = Return False (b, s)"
    by (simp add: load_def)
  have same: "b\<lparr>markToDestroy := True\<rparr> = b"
    using h by (cases b) simp
  show "addSession cfg env s b
        = Throw (RuntimeError (''Failed to load document with URI ['' @ publicUri s @ ''].''))
            (b, s)"
    using l same by (simp add: addSession_def addSessionInternal_def)
next
  assume l: "load cfg env s b = Return True (b1, s1)" and f: "filterLoad env = None"
  show "\<not> markToDestroy b"
    using l f by (auto simp: load_def)
next
  assume l: "load cfg env s b = Return True (b1, s1)"
  have fin: "finalState (load cfg env s b) = Some (b1, s1)"
    using l by simp
  have keep: "sid s1 = sid s" and ss: "sessions b1 = sessions b"
    using load_final [OF fin] by simp_all
  let ?s2 = "s1\<lparr>attached := True\<rparr>"
  let ?b' = "(childSendTextFrame (''session '' @ sid s1 @ '' '' @ docKey b1 @ '' '' @ docId b1)
                (b1\<lparr>lastEditableSession := False, markToDestroy := False, stop := False\<rparr>))
               \<lparr>sessions := emplaceSession ?s2 (sessions b1)\<rparr>"
  have a: "addSession cfg env s b = Return (length (sessions ?b')) (?b', ?s2)"
    using addSession_after_load [OF l] by simp
  have found: "findSession (sid s) (sessions ?b') \<noteq> None"
    using findSession_emplaceSession [of ?s2 "sessions b1"] keep by simp
  have fresh: "findSession (sid s) (sessions b) = None \<longrightarrow>
               findSession (sid s) (sessions ?b') = Some ?s2"
    using findSession_emplaceSession_new [of ?s2 "sessions b1"] keep ss by simp
  show "\<exists>b'. addSession cfg env s b = Return (length (sessions b')) (b', ?s2)
            \<and> \<not> lastEditableSession b' \<and> \<not> markToDestroy b' \<and> \<not> stop b'
            \<and> sessions b' = emplaceSession ?s2 (sessions b)
            \<and> findSession (sid s) (sessions b') \<noteq> None
            \<and> (findSession (sid s) (sessions b) = None \<longrightarrow>
                 findSession (sid s) (sessions b') = Some ?s2)"
    using a found fresh ss
    by (intro exI [of _ ?b']) (simp add: childSendTextFrame_def)
qed

theorem addSession_marked_to_destroy_counterexample:
  "addSession exampleConfig exampleLoadEnv (exampleSession ''s2'')
     ((exampleBroker [exampleSession ''s1''])\<lparr>markToDestroy := True, lastEditableSession := True\<rparr>)
   = Throw (RuntimeError
              ''Failed to load document with URI [https://host/wopi/files/42?access_token=T].'')
       ((exampleBroker [exampleSession ''s1''])\<lparr>markToDestroy := True, lastEditableSession := True\<rparr>,
        exampleSession ''s2'')"
  by (simp add: addSession_def addSessionInternal_def load_def exampleLoadEnv_def
                exampleBroker_def exampleSession_def)

theorem addSession_revives_unless_marked_witness:
  "filterLoad exampleLoadEnv = None
   \<and> markToDestroy ((exampleBroker [exampleSession ''s1''])\<lparr>markToDestroy := True\<rparr>)
   \<and> addSession exampleConfig exampleLoadEnv (exampleSession ''s2'')
        ((exampleBroker [exampleSession ''s1''])\<lparr>markToDestroy := True\<rparr>)
      = Throw (RuntimeError
                 ''Failed to load document with URI [https://host/wopi/files/42?access_token=T].'')
          ((exampleBroker [exampleSession ''s1''])\<lparr>markToDestroy := True\<rparr>, exampleSession ''s2'')
   \<and> (\<exists>b1 s1. load exampleConfig exampleLoadEnv ((exampleSession ''s2'')\<lparr>accessToken := ''U''\<rparr>)
                  ((exampleBroker [exampleSession ''s1''])\<lparr>stop := True, lastEditableSession := True\<rparr>)
                = Return True (b1, s1))
   \<and> (\<exists>b' s'. addSession exampleConfig exampleLoadEnv ((exampleSession ''s2'')\<lparr>accessToken := ''U''\<rparr>)
                  ((exampleBroker [exampleSession ''s1''])\<lparr>stop := True, lastEditableSession := True\<rparr>)
                = Return 2 (b', s')
              \<and> \<not> lastEditableSession b' \<and> \<not> markToDestroy b' \<and> \<not> stop b'
              \<and> map sid (sessions b') = [''s1'', ''s2''])"
proof -
  let ?M = "(exampleBroker [exampleSession ''s1''])\<lparr>markToDestroy := True\<rparr>"
  let ?C = "(exampleBroker [exampleSession ''s1''])\<lparr>stop := True, lastEditableSession := True\<rparr>"
  let ?s = "(exampleSession ''s2'')\<lparr>accessToken := ''U''\<rparr>"
  have h1: "filterLoad exampleLoadEnv = None"
    by (simp add: exampleLoadEnv_def)
  have h2: "markToDestroy ?M" by simp
  have pub: "publicUri (exampleSession ''s2'') = ''https://host/wopi/files/42?access_token=T''"
    by (simp add: exampleSession_def)
  have c1: "addSession exampleConfig exampleLoadEnv (exampleSession ''s2'') ?M
        = Throw (RuntimeError
                   ''Failed to load document with URI [https://host/wopi/files/42?access_token=T].'')
            (?M, exampleSession ''s2'')"
    using addSession_revives_unless_marked
            [where env = exampleLoadEnv and b = ?M and cfg = exampleConfig
               and s = "exampleSession ''s2''"] h1 h2
    unfolding pub by simp
  have "\<exists>b1 s1. load exampleConfig exampleLoadEnv ?s ?C = Return True (b1, s1)"
    by (simp add: load_def loadStorage_def loadFileInfo_def loadWopiInfo_def loadDocument_def
                  tokenUsed_def Let_def exampleLoadEnv_def exampleBroker_def exampleSession_def
                  exampleStorage_def exampleConfig_def)
  then obtain b1 s1 where l: "load exampleConfig exampleLoadEnv ?s ?C = Return True (b1, s1)"
    by blast
  from addSession_revives_unless_marked
         [where env = exampleLoadEnv and b = ?C and cfg = exampleConfig and s = ?s
            and ?b1.0 = b1 and ?s1.0 = s1] l
  obtain b' where a: "addSession exampleConfig exampleLoadEnv ?s ?C
                        = Return (length (sessions b')) (b', s1\<lparr>attached := True\<rparr>)"
    and fl: "\<not> lastEditableSession b' \<and> \<not> markToDestroy b' \<and> \<not> stop b'"
    and se: "sessions b' = emplaceSession (s1\<lparr>attached := True\<rparr>) (sessions ?C)"
    by blast
  have fin: "finalState (load exampleConfig exampleLoadEnv ?s ?C) = Some (b1, s1)"
    using l by simp
  have k: "sid s1 = ''s2''"
    using load_final [OF fin] by (simp add: exampleSession_def)
  have ids: "map sid (sessions b') = [''s1'', ''s2'']"
    unfolding se using k by (simp add: exampleBroker_def exampleSession_def)
  then have len: "length (sessions b') = 2"
    by (metis length_map length_Cons list.size(3) numeral_2_eq_2)
  show ?thesis
    using h1 h2 c1 l a fl ids len by auto
qed

section \<open>The token ledger\<close>

lemma loadDocument_keeps:
  "finalState (loadDocument env st b) = Some b' \<Longrightarrow>
     tokens b' = tokens b \<and>
     (storage b' = storage b \<or> storage b' = Some (markStorageLoaded st))"
  by (auto simp: loadDocument_def split: if_splits sum.splits)

text \<open>
  Claim C7. For a load that reaches a WOPI storage (the unit-test hook silent, the broker
  not marked to destroy, the jail id set, the storage present or just created): if the
  session's access token is in the ledger and the query of its public URI has no
  \<^verbatim>\<open>docpass=yes\<close>, \<^verbatim>\<open>load\<close> throws the storage-connection exception before any file info is
  asked for, and \<^verbatim>\<open>addSession\<close> passes it on with the session map, the ledger and the
  session unchanged. If the token is not in the ledger, it is appended to it and the load
  goes on to \<^verbatim>\<open>getWOPIFileInfo\<close>: an exception of that call is the outcome, and when the call
  returns it is recorded with the token in the storage the load ends with.
\<close>

theorem load_token_ledger:
  assumes "filterLoad env = None" and "\<not> markToDestroy b"
    and "childJailId (childProcess b) \<noteq> []"
    and "storage b = Some st \<or> (storage b = None \<and> createStorage env = Inr (Some st))"
    and "kind st = WopiStorage"
  shows "(accessToken s \<in> set (tokens b) \<and> (''docpass'', ''yes'') \<notin> set (queryParameters s) \<longrightarrow>
            load cfg env s b
              = Throw (StorageConnectionException ''WOPI::CheckFileInfo failed'')
                  (b\<lparr>jailId := childJailId (childProcess b), storage := Some st\<rparr>, s)
            \<and> (\<exists>b'. addSession cfg env s b
                       = Throw (StorageConnectionException ''WOPI::CheckFileInfo failed'') (b', s)
                  \<and> sessions b' = sessions b \<and> tokens b' = tokens b
                  \<and> (\<forall>st'. storage b' = Some st' \<longrightarrow> infoRequests st' = infoRequests st)))
       \<and> (accessToken s \<notin> set (tokens b) \<longrightarrow>
            (\<exists>b' s'. finalState (load cfg env s b) = Some (b', s')
               \<and> tokens b' = tokens b @ [accessToken s]
               \<and> (\<forall>e. getWOPIFileInfo env = Inl e \<longrightarrow>
                      load cfg env s b
                        = Throw e (b\<lparr>jailId := childJailId (childProcess b), storage := Some st,
                                     tokens := tokens b @ [accessToken s]\<rparr>, s))
               \<and> (\<forall>w info. getWOPIFileInfo env = Inr (w, info) \<longrightarrow>
                      (\<exists>st'. storage b' = Some st' \<and>
                             infoRequests st' = infoRequests st @ [accessToken s] \<and>
                             fileInfo st' = info))))"
proof -
  let ?b1 = "b\<lparr>jailId := childJailId (childProcess b)\<rparr>"
  let ?b2 = "?b1\<lparr>storage := Some st\<rparr>"
  define firstInstance where "firstInstance = (storage b = None)"
  have sto: "loadStorage env ?b1 = Return firstInstance (Some st)"
    using assms(4) by (auto simp: loadStorage_def firstInstance_def)
  have start: "load cfg env s b =
     (case loadFileInfo cfg env st ?b2 s of
        Throw e ((b4, s4), st4) \<Rightarrow> Throw e (b4\<lparr>storage := Some st4\<rparr>, s4)
      | Abort \<Rightarrow> Abort
      | Return (userid, username) ((b4, s4), st4) \<Rightarrow>
          let s5 = s4\<lparr>userId := userid, userName := username\<rparr>;
              b5 = b4\<lparr>storage := Some st4\<rparr>
          in if \<not> infoValid (fileInfo st4) then Return False (b5, s5)
             else
               let b6 = (if firstInstance
                         then b5\<lparr>documentLastModifiedTime := infoModifiedTime (fileInfo st4)\<rparr>
                         else b5)
               in (case loadDocument env st4 b6 of
                     Throw e b7 \<Rightarrow> Throw e (b7, s5)
                   | Abort \<Rightarrow> Abort
                   | Return u b7 \<Rightarrow>
                       Return True
                         (b7, if kind st = WopiStorage
                              then sendTextFrame (''stats: wopiloadduration '' @ loadDurationText env) s5
                              else s5)))"
    using assms(1-3) sto by (simp add: load_def Let_def)
  show ?thesis
  proof (intro conjI impI)
    assume h: "accessToken s \<in> set (tokens b) \<and> (''docpass'', ''yes'') \<notin> set (queryParameters s)"
    have fi: "loadFileInfo cfg env st ?b2 s
                = Throw (StorageConnectionException ''WOPI::CheckFileInfo failed'') ((?b2, s), st)"
      using h assms(5)
      by (simp add: loadFileInfo_def Let_def nocheckLoop_iff tokenUsed_simps)
    show l: "load cfg env s b
              = Throw (StorageConnectionException ''WOPI::CheckFileInfo failed'') (?b2, s)"
      unfolding start fi by simp
    show "\<exists>b'. addSession cfg env s b
                 = Throw (StorageConnectionException ''WOPI::CheckFileInfo failed'') (b', s)
             \<and> sessions b' = sessions b \<and> tokens b' = tokens b
             \<and> (\<forall>st'. storage b' = Some st' \<longrightarrow> infoRequests st' = infoRequests st)"
      unfolding addSession_def addSessionInternal_def l by simp
  next
    assume h: "accessToken s \<notin> set (tokens b)"
    let ?b3 = "?b2\<lparr>tokens := tokens b @ [accessToken s]\<rparr>"
    have fi: "loadFileInfo cfg env st ?b2 s = loadWopiInfo cfg env st ?b3 s"
      using h assms(5) by (simp add: loadFileInfo_def Let_def tokenUsed_simps)
    show "\<exists>b' s'. finalState (load cfg env s b) = Some (b', s')
               \<and> tokens b' = tokens b @ [accessToken s]
               \<and> (\<forall>e. getWOPIFileInfo env = Inl e \<longrightarrow>
                      load cfg env s b
                        = Throw e (b\<lparr>jailId := childJailId (childProcess b), storage := Some st,
                                     tokens := tokens b @ [accessToken s]\<rparr>, s))
               \<and> (\<forall>w info. getWOPIFileInfo env = Inr (w, info) \<longrightarrow>
                      (\<exists>st'. storage b' = Some st' \<and>
                             infoRequests st' = infoRequests st @ [accessToken s] \<and>
                             fileInfo st' = info))"
    proof (cases "getWOPIFileInfo env")
      case (Inl e)
      have l: "load cfg env s b = Throw e (?b3, s)"
        unfolding start fi using Inl by (simp add: loadWopiInfo_def)
      show ?thesis
        using l Inl by simp
    next
      case (Inr p)
      obtain w info where p: "p = (w, info)" by (metis prod.exhaust)
      obtain ids s4 where
        wi: "loadWopiInfo cfg env st ?b3 s
               = Return ids ((?b3, s4),
                   st\<lparr>infoRequests := infoRequests st @ [accessToken s], fileInfo := info\<rparr>)"
        using Inr p by (simp add: loadWopiInfo_def Let_def)
      obtain userid username where ids: "ids = (userid, username)" by (metis prod.exhaust)
      let ?st4 = "st\<lparr>infoRequests := infoRequests st @ [accessToken s], fileInfo := info\<rparr>"
      let ?s5 = "s4\<lparr>userId := userid, userName := username\<rparr>"
      let ?b5 = "?b3\<lparr>storage := Some ?st4\<rparr>"
      let ?b6 = "if firstInstance
                 then ?b5\<lparr>documentLastModifiedTime := infoModifiedTime (fileInfo ?st4)\<rparr>
                 else ?b5"
      have b6: "tokens ?b6 = tokens b @ [accessToken s] \<and> storage ?b6 = Some ?st4"
        by simp
      have good: "\<And>b'. tokens b' = tokens ?b6 \<and>
                      (storage b' = storage ?b6 \<or> storage b' = Some (markStorageLoaded ?st4)) \<Longrightarrow>
                    tokens b' = tokens b @ [accessToken s] \<and>
                    (\<exists>st'. storage b' = Some st' \<and>
                           infoRequests st' = infoRequests st @ [accessToken s] \<and>
                           fileInfo st' = info)"
        using b6 by (auto simp: markStorageLoaded_def)
      show ?thesis
      proof (cases "infoValid (fileInfo ?st4)")
        case False
        have l: "load cfg env s b = Return False (?b5, ?s5)"
          unfolding start fi wi ids using False by (simp add: Let_def)
        show ?thesis
          using l Inr p by simp
      next
        case True
        show ?thesis
        proof (cases "loadDocument env ?st4 ?b6")
          case Abort
          then show ?thesis
            by (auto simp: loadDocument_def split: if_splits sum.splits)
        next
          case (Throw e b7)
          have l: "load cfg env s b = Throw e (b7, ?s5)"
            unfolding start fi wi ids using True Throw by (simp add: Let_def)
          have d: "finalState (loadDocument env ?st4 ?b6) = Some b7"
            using Throw by simp
          show ?thesis
            using l Inr p good [OF loadDocument_keeps [OF d]] by simp
        next
          case (Return u b7)
          have l: "\<exists>s'. load cfg env s b = Return True (b7, s')"
            unfolding start fi wi ids using True Return by (simp add: Let_def)
          have d: "finalState (loadDocument env ?st4 ?b6) = Some b7"
            using Return by simp
          show ?thesis
            using l Inr p good [OF loadDocument_keeps [OF d]] by auto
        qed
      qed
    qed
  qed
qed

theorem load_token_ledger_witness:
  "filterLoad exampleLoadEnv = None
   \<and> \<not> markToDestroy (exampleBroker [exampleSession ''s1''])
   \<and> childJailId (childProcess (exampleBroker [exampleSession ''s1''])) \<noteq> []
   \<and> storage (exampleBroker [exampleSession ''s1'']) = Some exampleStorage
   \<and> kind exampleStorage = WopiStorage
   \<and> accessToken (exampleSession ''s2'') \<in> set (tokens (exampleBroker [exampleSession ''s1'']))
   \<and> (''docpass'', ''yes'') \<notin> set (queryParameters (exampleSession ''s2''))
   \<and> load exampleConfig exampleLoadEnv (exampleSession ''s2'') (exampleBroker [exampleSession ''s1''])
      = Throw (StorageConnectionException ''WOPI::CheckFileInfo failed'')
          ((exampleBroker [exampleSession ''s1''])\<lparr>jailId := ''j'', storage := Some exampleStorage\<rparr>,
           exampleSession ''s2'')
   \<and> accessToken ((exampleSession ''s2'')\<lparr>accessToken := ''U''\<rparr>)
       \<notin> set (tokens (exampleBroker [exampleSession ''s1'']))
   \<and> (\<exists>b' s'. finalState (load exampleConfig exampleLoadEnv
                              ((exampleSession ''s2'')\<lparr>accessToken := ''U''\<rparr>)
                              (exampleBroker [exampleSession ''s1''])) = Some (b', s')
          \<and> tokens b' = [''T'', ''U'']
          \<and> (\<exists>st'. storage b' = Some st' \<and> infoRequests st' = [''U'']))"
proof -
  let ?B = "exampleBroker [exampleSession ''s1'']"
  let ?s = "exampleSession ''s2''"
  let ?u = "(exampleSession ''s2'')\<lparr>accessToken := ''U''\<rparr>"
  have h1: "filterLoad exampleLoadEnv = None"
    by (simp add: exampleLoadEnv_def)
  have h2: "\<not> markToDestroy ?B" and h3: "childJailId (childProcess ?B) \<noteq> []"
    and st: "storage ?B = Some exampleStorage"
    by (simp_all add: exampleBroker_def)
  have h4: "storage ?B = Some exampleStorage
            \<or> (storage ?B = None \<and> createStorage exampleLoadEnv = Inr (Some exampleStorage))"
    using st by simp
  have h5: "kind exampleStorage = WopiStorage"
    by (simp add: exampleStorage_def)
  have used: "accessToken ?s \<in> set (tokens ?B)"
    and nopass: "(''docpass'', ''yes'') \<notin> set (queryParameters ?s)"
    and fresh: "accessToken ?u \<notin> set (tokens ?B)"
    by (simp_all add: exampleBroker_def exampleSession_def)
  have j: "childJailId (childProcess ?B) = ''j''" and t: "tokens ?B = [''T'']"
    and r: "infoRequests exampleStorage = []"
    by (simp_all add: exampleBroker_def exampleStorage_def)
  have g: "getWOPIFileInfo exampleLoadEnv
             = Inr (\<lparr>wopiUserId = ''u'', wopiUsername = ''user'', userCanWrite = True,
                     postMessageOrigin = [], wopiProperties = []\<rparr>, fileInfo exampleStorage)"
    by (simp add: exampleLoadEnv_def)
  note thm1 = load_token_ledger [OF h1 h2 h3 h4 h5, of ?s exampleConfig]
  note thm2 = load_token_ledger [OF h1 h2 h3 h4 h5, of ?u exampleConfig]
  have c1: "load exampleConfig exampleLoadEnv ?s ?B
      = Throw (StorageConnectionException ''WOPI::CheckFileInfo failed'')
          (?B\<lparr>jailId := ''j'', storage := Some exampleStorage\<rparr>, ?s)"
    using thm1 used nopass unfolding j by blast
  from thm2 fresh obtain b' s' where
    f: "finalState (load exampleConfig exampleLoadEnv ?u ?B) = Some (b', s')"
    and tk: "tokens b' = tokens ?B @ [accessToken ?u]"
    and rq: "\<forall>w info. getWOPIFileInfo exampleLoadEnv = Inr (w, info) \<longrightarrow>
                (\<exists>st'. storage b' = Some st' \<and>
                       infoRequests st' = infoRequests exampleStorage @ [accessToken ?u] \<and>
                       fileInfo st' = info)"
    by blast
  have tk': "tokens b' = [''T'', ''U'']"
    using tk unfolding t by simp
  have rq': "\<exists>st'. storage b' = Some st' \<and> infoRequests st' = [''U'']"
    using rq g unfolding r by auto
  show ?thesis
    using h1 h2 h3 st h5 used nopass c1 fresh f tk' rq' by blast
qed

section \<open>The modified flag and the unsaved changes of the tile cache\<close>

lemma finalState_cases:
  "finalState out = Some s \<Longrightarrow> (\<exists>v. out = Return v s) \<or> (\<exists>e. out = Throw e s)"
  by (cases out) auto

lemma unchanged_flags:
  assumes "isModified b' = isModified b" and "tileCache b' = tileCache b"
    and "storageIsLoaded b \<longrightarrow> storageIsLoaded b'"
  shows "(brokerInv b \<longrightarrow> brokerInv b')
         \<and> (isModified b \<and> \<not> isModified b' \<longrightarrow> \<not> unsavedFlag b')
         \<and> (unsavedFlag b \<and> \<not> unsavedFlag b' \<longrightarrow> \<not> isModified b')"
  using assms by (auto simp: brokerInv_def unsavedFlag_def)

lemma destroyIfLastEditor_frame:
  "isModified (destroyIfLastEditor k b) = isModified b
   \<and> tileCache (destroyIfLastEditor k b) = tileCache b
   \<and> storage (destroyIfLastEditor k b) = storage b"
  by (simp add: destroyIfLastEditor_def Let_def split: option.splits)

lemma forwardToChild_frame:
  "finalState (forwardToChild k msg b) = Some b' \<Longrightarrow>
     isModified b' = isModified b \<and> tileCache b' = tileCache b \<and> storage b' = storage b"
  by (auto simp: forwardToChild_def Let_def split: option.splits if_splits)

lemma sendUnoSave_frame:
  "finalState (sendUnoSave k d1 d2 now b) = Some b' \<Longrightarrow>
     isModified b' = isModified b \<and> tileCache b' = tileCache b \<and> storage b' = storage b"
  using sendUnoSave_outcome [of k d1 d2 now b _ b'] sendUnoSave_no_throw [of k d1 d2 now b _ b']
  by (auto dest!: finalState_cases)

lemma autoSave_frame:
  "finalState (autoSave cfg force now b) = Some b' \<Longrightarrow>
     isModified b' = isModified b \<and> tileCache b' = tileCache b \<and> storage b' = storage b"
  using autoSave_outcome [of cfg force now b _ b'] autoSave_no_throw [of cfg force now b _ b']
  by (auto dest!: finalState_cases)

lemma removeSession_frame:
  assumes "finalState (removeSession cfg k d now b) = Some b'"
  shows "isModified b' = isModified b \<and> tileCache b' = tileCache b \<and> storage b' = storage b"
proof -
  let ?b1 = "if d then destroyIfLastEditor k b else b"
  have b1: "isModified ?b1 = isModified b \<and> tileCache ?b1 = tileCache b \<and> storage ?b1 = storage b"
    by (simp add: destroyIfLastEditor_frame)
  show ?thesis
  proof (cases "lastEditableSession ?b1")
    case False
    then have "removeSession cfg k d now b = removeSessionInternal k ?b1"
      by (simp add: removeSession_def Let_def)
    then show ?thesis
      using assms removeSessionInternal_returns [of k ?b1] b1 by auto
  next
    case True
    show ?thesis
    proof (cases "autoSave cfg True now ?b1")
      case Abort
      with assms True show ?thesis by (simp add: removeSession_def Let_def)
    next
      case (Throw e b2)
      then show ?thesis using autoSave_no_throw by blast
    next
      case (Return sent b2)
      have b2: "isModified b2 = isModified b \<and> tileCache b2 = tileCache b \<and> storage b2 = storage b"
        using autoSave_outcome [OF Return] b1 by simp
      show ?thesis
        using assms True Return b2 removeSessionInternal_returns [of k b2]
        by (auto simp: removeSession_def Let_def split: if_splits)
    qed
  qed
qed

lemma saveToStorageInternal_frame:
  assumes "finalState (saveToStorageInternal env k success result b) = Some b1"
  shows "storageIsLoaded b1 = storageIsLoaded b
         \<and> ((isModified b1 = isModified b \<and> tileCache b1 = tileCache b) \<or>
             (\<not> isModified b1 \<and> tileCache b \<noteq> None \<and> tileCache b1 \<noteq> None \<and> \<not> unsavedFlag b1))"
  using assms
  by (cases "storageSaveResult env")
     (auto simp: saveToStorageInternal_def Let_def storageIsLoaded_def unsavedFlag_def
           split: if_splits option.splits)

lemma saveToStorage_frame:
  assumes "finalState (saveToStorage env k success result b) = Some b'"
  shows "storageIsLoaded b' = storageIsLoaded b
         \<and> ((isModified b' = isModified b \<and> tileCache b' = tileCache b) \<or>
             (\<not> isModified b' \<and> tileCache b \<noteq> None \<and> tileCache b' \<noteq> None \<and> \<not> unsavedFlag b'))"
proof (cases "saveToStorageInternal env k success result b")
  case Abort
  with assms show ?thesis by (simp add: saveToStorage_def)
next
  case (Throw e b1)
  with assms have "b' = b1" by (simp add: saveToStorage_def)
  then show ?thesis
    using saveToStorageInternal_frame [of env k success result b b1] Throw by simp
next
  case (Return res b1)
  have f: "storageIsLoaded b1 = storageIsLoaded b
         \<and> ((isModified b1 = isModified b \<and> tileCache b1 = tileCache b) \<or>
             (\<not> isModified b1 \<and> tileCache b \<noteq> None \<and> tileCache b1 \<noteq> None \<and> \<not> unsavedFlag b1))"
    using saveToStorageInternal_frame [of env k success result b b1] Return by simp
  obtain b2 where r: "removeSessionInternal k b1 = Return (length (eraseSession k (sessions b1))) b2"
    and r2: "isModified b2 = isModified b1 \<and> tileCache b2 = tileCache b1 \<and> storage b2 = storage b1"
    using removeSessionInternal_returns [of k b1] by blast
  have "(isModified b' = isModified b1 \<and> tileCache b' = tileCache b1 \<and> storage b' = storage b1)"
    using assms Return r r2
    by (auto simp: saveToStorage_def Let_def split: if_splits option.splits)
  then show ?thesis
    using f by (auto simp: storageIsLoaded_def unsavedFlag_def)
qed

lemma addSession_frame:
  assumes "finalState (addSession cfg env s b) = Some (b', s')"
  shows "\<exists>b1 s1. finalState (load cfg env s b) = Some (b1, s1)
           \<and> isModified b' = isModified b1 \<and> tileCache b' = tileCache b1
           \<and> storage b' = storage b1"
proof (cases "load cfg env s b")
  case Abort
  with assms show ?thesis by (simp add: addSession_def addSessionInternal_def)
next
  case (Throw e x)
  obtain b1 s1 where x: "x = (b1, s1)" by (metis prod.exhaust)
  show ?thesis
    using assms Throw x
    by (cases e)
       (auto simp: addSession_def addSessionInternal_def alertAllUsers2_def alertAllUsers_def
             split: if_splits)
next
  case (Return loaded x)
  obtain b1 s1 where x: "x = (b1, s1)" by (metis prod.exhaust)
  show ?thesis
    using assms Return x
    by (auto simp: addSession_def addSessionInternal_def Let_def childSendTextFrame_def
             split: if_splits)
qed

lemma timerActions_frame:
  assumes "finalState (timerActions cfg env ls) = Some ls'"
  shows "isModified (loopBroker ls') = isModified (loopBroker ls)
         \<and> tileCache (loopBroker ls') = tileCache (loopBroker ls)
         \<and> storage (loopBroker ls') = storage (loopBroker ls)"
proof (cases "ShutdownRequestFlag env")
  case True
  with assms show ?thesis
    by (auto simp: timerActions_def Let_def split: if_splits)
next
  case False
  show ?thesis
  proof (cases "AutoSaveEnabled cfg \<and> \<not> stop (loopBroker ls) \<and>
                duration_secs (pollNow env - last30SecCheckTime ls) \<ge> int (savingtime cfg)")
    case no: False
    with assms False show ?thesis
      by (auto simp: timerActions_def Let_def split: if_splits)
  next
    case yes: True
    show ?thesis
    proof (cases "autoSave cfg True (autoSaveNow env) (loopBroker ls)")
      case Abort
      with assms False yes show ?thesis by (simp add: timerActions_def Let_def)
    next
      case (Throw e b1)
      then show ?thesis using autoSave_no_throw by blast
    next
      case (Return sent b1)
      have "isModified b1 = isModified (loopBroker ls) \<and> tileCache b1 = tileCache (loopBroker ls)
            \<and> storage b1 = storage (loopBroker ls)"
        using autoSave_outcome [OF Return] by simp
      then show ?thesis
        using assms False yes Return
        by (auto simp: timerActions_def Let_def split: if_splits)
    qed
  qed
qed

lemma step_SetModified:
  assumes "brokerInv b" and "finalState (setModified v b) = Some b'"
  shows "brokerInv b'
      \<and> (isModified b \<and> \<not> isModified b' \<longrightarrow> \<not> unsavedFlag b')
      \<and> (unsavedFlag b \<and> \<not> unsavedFlag b' \<longrightarrow> \<not> isModified b')"
  using assms
  by (cases "tileCache b")
     (auto simp: setModified_def brokerInv_def unsavedFlag_def storageIsLoaded_def)

lemma step_SaveToStorage:
  assumes "brokerInv b" and "finalState (saveToStorage env k success result b) = Some b'"
  shows "brokerInv b'
      \<and> (isModified b \<and> \<not> isModified b' \<longrightarrow> \<not> unsavedFlag b')
      \<and> (unsavedFlag b \<and> \<not> unsavedFlag b' \<longrightarrow> \<not> isModified b')"
  using saveToStorage_frame [OF assms(2)] assms(1)
  by (auto simp: brokerInv_def unsavedFlag_def)

lemma step_unchanged:
  assumes "brokerInv b"
    and "isModified b' = isModified b \<and> tileCache b' = tileCache b \<and> storage b' = storage b"
  shows "brokerInv b'
      \<and> (isModified b \<and> \<not> isModified b' \<longrightarrow> \<not> unsavedFlag b')
      \<and> (unsavedFlag b \<and> \<not> unsavedFlag b' \<longrightarrow> \<not> isModified b')"
  using assms by (auto simp: brokerInv_def unsavedFlag_def storageIsLoaded_def)

lemma step_Load:
  assumes "brokerInv b" and "finalState (load cfg env s b) = Some (b', s')"
  shows "brokerInv b'
      \<and> (isModified b \<and> \<not> isModified b' \<longrightarrow> \<not> unsavedFlag b')
      \<and> (unsavedFlag b \<and> \<not> unsavedFlag b' \<longrightarrow> \<not> isModified b')"
  using load_final [OF assms(2)] assms(1)
  by (auto simp: brokerInv_def unsavedFlag_def)

lemma step_AddSession:
  assumes "brokerInv b" and "finalState (addSession cfg env s b) = Some (b', s')"
  shows "brokerInv b'
      \<and> (isModified b \<and> \<not> isModified b' \<longrightarrow> \<not> unsavedFlag b')
      \<and> (unsavedFlag b \<and> \<not> unsavedFlag b' \<longrightarrow> \<not> isModified b')"
proof -
  from addSession_frame [OF assms(2)] obtain b1 s1 where
    f: "finalState (load cfg env s b) = Some (b1, s1)"
    and e: "isModified b' = isModified b1 \<and> tileCache b' = tileCache b1 \<and> storage b' = storage b1"
    by blast
  have u: "unsavedFlag b' = unsavedFlag b1" and l: "storageIsLoaded b' = storageIsLoaded b1"
    and i: "brokerInv b' = brokerInv b1"
    using e by (simp_all add: unsavedFlag_def storageIsLoaded_def brokerInv_def)
  show ?thesis
    using step_Load [OF assms(1) f] e u i by simp
qed

text \<open>
  Claim C9. Every operation of the broker preserves the invariant that the modified flag
  implies the unsaved-changes flag of the tile cache, and none clears one of the two flags
  while the other stays set. \<^verbatim>\<open>setModified(v)\<close> sets both flags to \<open>v\<close>; an upload in
  \<^verbatim>\<open>saveToStorageInternal\<close> that answers \<^verbatim>\<open>OK\<close> clears both. The invariant holds in a newly
  constructed broker. (It is carried together with the fact that a tile cache exists only
  over a storage that has downloaded its file: \<^verbatim>\<open>load\<close> builds a fresh tile cache, without
  unsaved changes, exactly when the storage has not.)
\<close>

theorem perform_preserves_modified_flag:
  "(brokerInv b \<and> perform cfg oper b = Some b' \<longrightarrow>
      brokerInv b' \<and> (isModified b' \<longrightarrow> unsavedFlag b')
      \<and> (isModified b \<and> \<not> isModified b' \<longrightarrow> \<not> unsavedFlag b')
      \<and> (unsavedFlag b \<and> \<not> unsavedFlag b' \<longrightarrow> \<not> isModified b'))
   \<and> (tileCache b \<noteq> None \<longrightarrow>
        (\<exists>b1. setModified v b = Return () b1 \<and> isModified b1 = v \<and> unsavedFlag b1 = v))
   \<and> (findSession k (sessions b) \<noteq> None \<and> storage b \<noteq> None \<and> tileCache b \<noteq> None \<and>
        (success \<or> result \<noteq> ''unmodified'') \<and>
        (lastEditableSession b \<or> newFileModifiedTime env \<noteq> lastFileModifiedTime b) \<and>
        storageSaveResult env = OK \<longrightarrow>
        (\<exists>b1. saveToStorageInternal env k success result b = Return True b1
              \<and> \<not> isModified b1 \<and> \<not> unsavedFlag b1))
   \<and> (newDocumentBroker cfg key ident root cache now wallclock child = Some b0 \<longrightarrow>
        brokerInv b0 \<and> \<not> isModified b0 \<and> \<not> unsavedFlag b0)"
proof -
  have part1: "brokerInv b \<and> perform cfg oper b = Some b' \<longrightarrow>
      brokerInv b' \<and> (isModified b' \<longrightarrow> unsavedFlag b')
      \<and> (isModified b \<and> \<not> isModified b' \<longrightarrow> \<not> unsavedFlag b')
      \<and> (unsavedFlag b \<and> \<not> unsavedFlag b' \<longrightarrow> \<not> isModified b')"
  proof (rule impI)
    assume h: "brokerInv b \<and> perform cfg oper b = Some b'"
    then have i: "brokerInv b" and p: "perform cfg oper b = Some b'"
      by simp_all
    have main: "brokerInv b'
        \<and> (isModified b \<and> \<not> isModified b' \<longrightarrow> \<not> unsavedFlag b')
        \<and> (unsavedFlag b \<and> \<not> unsavedFlag b' \<longrightarrow> \<not> isModified b')"
    proof (cases oper)
      case (SetModified v)
      then have "finalState (setModified v b) = Some b'" using p by simp
      then show ?thesis by (rule step_SetModified [OF i])
    next
      case (SaveToStorage env k success result)
      then have "finalState (saveToStorage env k success result b) = Some b'" using p by simp
      then show ?thesis by (rule step_SaveToStorage [OF i])
    next
      case (AutoSave force now)
      then have "finalState (autoSave cfg force now b) = Some b'" using p by simp
      then show ?thesis using step_unchanged [OF i] autoSave_frame by blast
    next
      case (SendUnoSave k d1 d2 now)
      then have "finalState (sendUnoSave k d1 d2 now b) = Some b'" using p by simp
      then show ?thesis using step_unchanged [OF i] sendUnoSave_frame by blast
    next
      case (ForwardToChild k msg)
      then have "finalState (forwardToChild k msg b) = Some b'" using p by simp
      then show ?thesis using step_unchanged [OF i] forwardToChild_frame by blast
    next
      case (DestroyIfLastEditor k)
      then have "b' = destroyIfLastEditor k b" using p by simp
      then show ?thesis using step_unchanged [OF i] destroyIfLastEditor_frame by blast
    next
      case (RemoveSession k d now)
      then have "finalState (removeSession cfg k d now b) = Some b'" using p by simp
      then show ?thesis using step_unchanged [OF i] removeSession_frame by blast
    next
      case (Load env s)
      then have "map_option fst (finalState (load cfg env s b)) = Some b'" using p by simp
      then obtain s' where "finalState (load cfg env s b) = Some (b', s')"
        by (cases "finalState (load cfg env s b)") auto
      then show ?thesis by (rule step_Load [OF i])
    next
      case (AddSession env s)
      then have "map_option fst (finalState (addSession cfg env s b)) = Some b'" using p by simp
      then obtain s' where "finalState (addSession cfg env s b) = Some (b', s')"
        by (cases "finalState (addSession cfg env s b)") auto
      then show ?thesis by (rule step_AddSession [OF i])
    next
      case (TimerActions env t reason)
      let ?ls = "\<lparr>loopBroker = b, last30SecCheckTime = t, closeReason = reason\<rparr>"
      from TimerActions have "map_option loopBroker (finalState (timerActions cfg env ?ls)) = Some b'"
        using p by simp
      then obtain ls' where f: "finalState (timerActions cfg env ?ls) = Some ls'"
        and b': "b' = loopBroker ls'"
        by (cases "finalState (timerActions cfg env ?ls)") auto
      have "isModified b' = isModified b \<and> tileCache b' = tileCache b \<and> storage b' = storage b"
        using timerActions_frame [OF f] b' by simp
      then show ?thesis by (rule step_unchanged [OF i])
    qed
    then show "brokerInv b' \<and> (isModified b' \<longrightarrow> unsavedFlag b')
        \<and> (isModified b \<and> \<not> isModified b' \<longrightarrow> \<not> unsavedFlag b')
        \<and> (unsavedFlag b \<and> \<not> unsavedFlag b' \<longrightarrow> \<not> isModified b')"
      unfolding brokerInv_def by blast
  qed
  have part2: "tileCache b \<noteq> None \<longrightarrow>
        (\<exists>b1. setModified v b = Return () b1 \<and> isModified b1 = v \<and> unsavedFlag b1 = v)"
    by (auto simp: setModified_def unsavedFlag_def)
  have part3: "findSession k (sessions b) \<noteq> None \<and> storage b \<noteq> None \<and> tileCache b \<noteq> None \<and>
        (success \<or> result \<noteq> ''unmodified'') \<and>
        (lastEditableSession b \<or> newFileModifiedTime env \<noteq> lastFileModifiedTime b) \<and>
        storageSaveResult env = OK \<longrightarrow>
        (\<exists>b1. saveToStorageInternal env k success result b = Return True b1
              \<and> \<not> isModified b1 \<and> \<not> unsavedFlag b1)"
    by (auto simp: saveToStorageInternal_def Let_def unsavedFlag_def)
  have part4: "newDocumentBroker cfg key ident root cache now wallclock child = Some b0 \<longrightarrow>
        brokerInv b0 \<and> \<not> isModified b0 \<and> \<not> unsavedFlag b0"
    by (auto simp: newDocumentBroker_def brokerInv_def unsavedFlag_def split: if_splits)
  show ?thesis
    by (intro conjI) (fact part1, fact part2, fact part3, fact part4)
qed

theorem perform_preserves_modified_flag_witness:
  "brokerInv (exampleBroker [exampleSession ''s1''])
   \<and> perform exampleConfig (SetModified True) (exampleBroker [exampleSession ''s1''])
      = Some ((exampleBroker [exampleSession ''s1''])
                \<lparr>tileCache := Some (exampleTileCache\<lparr>unsavedChanges := True\<rparr>), isModified := True\<rparr>)
   \<and> brokerInv ((exampleBroker [exampleSession ''s1''])
                \<lparr>tileCache := Some (exampleTileCache\<lparr>unsavedChanges := True\<rparr>), isModified := True\<rparr>)
   \<and> (\<exists>b1. perform exampleConfig (SaveToStorage (exampleSaveEnv OK) ''s1'' True [])
              ((exampleBroker [exampleSession ''s1''])
                 \<lparr>tileCache := Some (exampleTileCache\<lparr>unsavedChanges := True\<rparr>), isModified := True\<rparr>)
            = Some b1 \<and> brokerInv b1 \<and> \<not> isModified b1 \<and> \<not> unsavedFlag b1)"
proof -
  let ?B = "exampleBroker [exampleSession ''s1'']"
  let ?M = "?B\<lparr>tileCache := Some (exampleTileCache\<lparr>unsavedChanges := True\<rparr>), isModified := True\<rparr>"
  have i: "brokerInv ?B"
    by (simp add: brokerInv_def unsavedFlag_def storageIsLoaded_def exampleBroker_def
                  exampleStorage_def)
  have p: "perform exampleConfig (SetModified True) ?B = Some ?M"
    by (simp add: setModified_def exampleBroker_def)
  have m: "brokerInv ?M"
    using perform_preserves_modified_flag
            [where b = ?B and cfg = exampleConfig and oper = "SetModified True" and b' = ?M,
             THEN conjunct1]
          i p by blast
  have "\<exists>b1. perform exampleConfig (SaveToStorage (exampleSaveEnv OK) ''s1'' True []) ?M = Some b1
              \<and> \<not> isModified b1"
    by (simp add: saveToStorage_def saveToStorageInternal_def removeSessionInternal_def
                  exampleBroker_def exampleSession_def exampleSaveEnv_def exampleStorage_def
                  findSession_def Let_def)
  then obtain b1 where
    s: "perform exampleConfig (SaveToStorage (exampleSaveEnv OK) ''s1'' True []) ?M = Some b1"
    and c: "\<not> isModified b1"
    by blast
  have u: "unsavedFlag ?M"
    by (simp add: unsavedFlag_def)
  have im: "isModified ?M"
    by simp
  have r: "brokerInv b1 \<and> \<not> unsavedFlag b1"
    using perform_preserves_modified_flag
            [where b = ?M and cfg = exampleConfig
               and oper = "SaveToStorage (exampleSaveEnv OK) ''s1'' True []" and b' = b1,
             THEN conjunct1]
          m s c im by blast
  show ?thesis
    using i p m s c r by blast
qed

section \<open>Document keys depend on the path\<close>

lemma hexDigit_value: "n < 16 \<Longrightarrow> hexDigitValue (hexDigit n) = Some n"
  by (auto simp: hexDigitValue_def hexDigit_def Let_def)

lemma percent_escaped: "encodeChar reserved CHR ''%'' = CHR ''%'' # formatHex2 (of_char CHR ''%'')"
  by (simp add: encodeChar_def unreservedChar_def ILLEGAL_def)

lemma decode_escape:
  "decode (CHR ''%'' # formatHex2 (of_char c) @ rest) = map_option (Cons c) (decode rest)"
proof -
  let ?n = "of_char c :: nat"
  have n: "?n < 256"
    by simp
  then have hi: "?n div 16 < 16"
    by presburger
  have lo: "?n mod 16 < 16"
    by simp
  have again: "char_of (?n div 16 * 16 + ?n mod 16) = c"
    by simp
  show ?thesis
    using hexDigit_value [OF hi] hexDigit_value [OF lo] again
    by (simp add: formatHex2_def)
qed

lemma decode_encodeChar:
  "decode (encodeChar reserved c @ rest) = map_option (Cons c) (decode rest)"
proof (cases "c = CHR ''%''")
  case True
  then show ?thesis
    using decode_escape [of c rest] by (simp add: percent_escaped)
next
  case False
  then show ?thesis
    using decode_escape [of c rest] by (simp add: encodeChar_def)
qed

lemma decode_encode: "decode (encode str reserved) = Some str"
  by (induction str) (simp_all add: decode_encodeChar)

lemma getDocKey_sanitized:
  "sanitizeParsed p = Inr u \<Longrightarrow> getDocKey u = Inr (encode (uriPath u) [])"
  by (auto simp: sanitizeParsed_def getDocKey_def Let_def split: if_splits option.splits)

lemma sanitizeParsed_path:
  "sanitizeParsed p = Inr u \<Longrightarrow>
     uriPath u = uriPath (if isRelative p \<or> uriScheme p = ''file'' then normalize p else p)"
  by (auto simp: sanitizeParsed_def Let_def split: if_splits option.splits)

lemma normalize_path_cong:
  "uriPath p' = uriPath p \<Longrightarrow> uriScheme p' = uriScheme p \<Longrightarrow>
     uriPath (normalize p') = uriPath (normalize p)"
  by (simp add: normalize_def isRelative_def Let_def)

text \<open>
  Claim C8, as amended. The document key is the percent-encoding of the path of the
  sanitized URI and of nothing else; \<^verbatim>\<open>sanitizeURI\<close> removes the dot segments of the path
  when the URI is relative or has the scheme \<^verbatim>\<open>file\<close>. So two URIs that sanitize and have
  the same path produce equal keys whatever their host, port and query parameters, and
  whatever their schemes when these are equal or are both neither empty nor \<^verbatim>\<open>file\<close>. The
  key is stable under re-encoding: \<open>docKey (encode (decode u)) = docKey u\<close> for every \<open>u\<close>
  that decodes, with any parser of decoded URI strings.
\<close>

theorem docKey_path_only:
  "(sanitizeParsed p = Inr u \<longrightarrow>
      getDocKey u = Inr (encode (uriPath u) []) \<and>
      uriPath u = uriPath (if isRelative p \<or> uriScheme p = ''file'' then normalize p else p))
   \<and> (sanitizeParsed p = Inr u \<and> sanitizeParsed p' = Inr u' \<and> uriPath p' = uriPath p \<and>
        (uriScheme p' = uriScheme p \<or>
         (uriScheme p \<noteq> [] \<and> uriScheme p \<noteq> ''file'' \<and>
          uriScheme p' \<noteq> [] \<and> uriScheme p' \<noteq> ''file'')) \<longrightarrow>
      getDocKey u' = getDocKey u)
   \<and> (decode uri = Some decoded \<longrightarrow>
        docKeyOf parseURI (encode decoded []) = docKeyOf parseURI uri)"
proof (intro conjI impI)
  assume s: "sanitizeParsed p = Inr u"
  show "getDocKey u = Inr (encode (uriPath u) [])"
    using s by (rule getDocKey_sanitized)
  show "uriPath u = uriPath (if isRelative p \<or> uriScheme p = ''file'' then normalize p else p)"
    using s by (rule sanitizeParsed_path)
next
  assume h: "sanitizeParsed p = Inr u \<and> sanitizeParsed p' = Inr u' \<and> uriPath p' = uriPath p \<and>
        (uriScheme p' = uriScheme p \<or>
         (uriScheme p \<noteq> [] \<and> uriScheme p \<noteq> ''file'' \<and>
          uriScheme p' \<noteq> [] \<and> uriScheme p' \<noteq> ''file''))"
  have "uriPath u' = uriPath u"
    using h sanitizeParsed_path [of p u] sanitizeParsed_path [of p' u']
          normalize_path_cong [of p' p]
    by (auto simp: isRelative_def)
  then show "getDocKey u' = getDocKey u"
    using h getDocKey_sanitized [of p u] getDocKey_sanitized [of p' u'] by simp
next
  assume "decode uri = Some decoded"
  then show "docKeyOf parseURI (encode decoded []) = docKeyOf parseURI uri"
    by (simp add: docKeyOf_def sanitizeURI_def decode_encode)
qed

theorem docKey_scheme_counterexample:
  "docKeyOfParsed (exampleURI ''file'') = Inr ''/b''
   \<and> docKeyOfParsed (exampleURI ''http'') = Inr ''/a/../b''
   \<and> docKeyOf exampleParseURI ''file://h/a/../b'' = Inr ''/b''
   \<and> docKeyOf exampleParseURI ''http://h/a/../b'' = Inr ''/a/../b''"
  by (simp add: docKeyOfParsed_def docKeyOf_def sanitizeURI_def sanitizeParsed_def
                getDocKey_def normalize_def isRelative_def buildPath_def exampleURI_def
                exampleParseURI_def encodeChar_def unreservedChar_def ILLEGAL_def Let_def)

theorem docKey_path_only_witness:
  "sanitizeParsed (exampleURI ''http'') = Inr (exampleURI ''http'')
   \<and> sanitizeParsed ((exampleURI ''https'')\<lparr>uriHost := ''alias'', uriPort := 8443,
                        uriQueryParameters := Some [(''access_token'', ''T'')]\<rparr>)
       = Inr ((exampleURI ''https'')\<lparr>uriHost := ''alias'', uriPort := 8443,
                 uriQueryParameters := Some [(''access_token'', ''T'')]\<rparr>)
   \<and> getDocKey (exampleURI ''http'') = Inr ''/a/../b''
   \<and> getDocKey ((exampleURI ''https'')\<lparr>uriHost := ''alias'', uriPort := 8443,
                    uriQueryParameters := Some [(''access_token'', ''T'')]\<rparr>)
       = getDocKey (exampleURI ''http'')
   \<and> decode ''http://h/a%2520b'' = Some ''http://h/a%20b''
   \<and> encode ''http://h/a%20b'' [] = ''http://h/a%2520b''
   \<and> docKeyOf exampleParseURI (encode ''http://h/a%20b'' []) = Inr ''/a%20b''
   \<and> docKeyOf exampleParseURI ''http://h/a%2520b'' = Inr ''/a%20b''"
proof -
  let ?p = "exampleURI ''http''"
  let ?q = "(exampleURI ''https'')\<lparr>uriHost := ''alias'', uriPort := 8443,
               uriQueryParameters := Some [(''access_token'', ''T'')]\<rparr>"
  have sp: "sanitizeParsed ?p = Inr ?p"
    by (simp add: sanitizeParsed_def isRelative_def exampleURI_def Let_def)
  have sq: "sanitizeParsed ?q = Inr ?q"
    by (simp add: sanitizeParsed_def isRelative_def exampleURI_def Let_def)
  have same: "uriPath ?q = uriPath ?p"
    and schemes: "uriScheme ?p \<noteq> [] \<and> uriScheme ?p \<noteq> ''file'' \<and>
                  uriScheme ?q \<noteq> [] \<and> uriScheme ?q \<noteq> ''file''"
    by (simp_all add: exampleURI_def)
  have d: "decode ''http://h/a%2520b'' = Some ''http://h/a%20b''"
    by (simp add: hexDigitValue_def char_of_eq_iff Let_def)
  have e: "encode ''http://h/a%20b'' [] = ''http://h/a%2520b''"
    by (simp add: encodeChar_def unreservedChar_def ILLEGAL_def formatHex2_def hexDigit_def
                  char_of_eq_iff Let_def)
  note t = docKey_path_only
             [where p = ?p and u = ?p and p' = ?q and u' = ?q
                and uri = "''http://h/a%2520b''" and decoded = "''http://h/a%20b''"
                and parseURI = exampleParseURI]
  have k1: "getDocKey ?p = Inr (encode (uriPath ?p) [])"
    using t sp by blast
  have k1': "getDocKey ?p = Inr ''/a/../b''"
    unfolding k1
    by (simp add: exampleURI_def encodeChar_def unreservedChar_def ILLEGAL_def Let_def)
  have k2: "getDocKey ?q = getDocKey ?p"
    using t sp sq same schemes by blast
  have k3: "docKeyOf exampleParseURI (encode ''http://h/a%20b'' [])
              = docKeyOf exampleParseURI ''http://h/a%2520b''"
    using t d by blast
  have k4: "docKeyOf exampleParseURI ''http://h/a%2520b'' = Inr ''/a%20b''"
    by (simp add: docKeyOf_def sanitizeURI_def sanitizeParsed_def getDocKey_def isRelative_def
                  exampleParseURI_def hexDigitValue_def encodeChar_def unreservedChar_def
                  ILLEGAL_def formatHex2_def hexDigit_def char_of_eq_iff Let_def)
  show ?thesis
    using sp sq k1' k2 d e k3 k4 by simp
qed

end
